theory Spec2Isabelle
  imports Main "HOL-Library.Word"
begin

section \<open>The incremental ingestion pipeline of \<^verbatim>\<open>langchain_blob_ai_search.py\<close>\<close>

text \<open>
  The class \<^verbatim>\<open>LangchainBlobAISearch\<close> keeps all of its state outside the Python
  process: a SQLite file (the ledger), two scratch directories, the remote blob
  container and the remote search index. The embedding passes that state explicitly as
  a record \<open>world\<close>; the collaborators whose code is not part of the repository (blob
  download, the document loader, the text splitter, the upload call, \<^verbatim>\<open>uuid.uuid1\<close>,
  the order of \<^verbatim>\<open>os.listdir\<close>) are the fields of a record \<open>env\<close>.

  Every method becomes a function from a world to an \<open>outcome\<close>: either it returns a
  value together with the new world, or it raises an exception, and the effects that
  happened before the raise stay in the world.

  Assumptions of the model: the directories \<^verbatim>\<open>temp/blob\<close>, \<^verbatim>\<open>temp/txt\<close> and
  \<^verbatim>\<open>logs\<close> exist and are writable, text written to a file is read back unchanged,
  and nobody else touches the ledger or the scratch directories during a call.
\<close>

subsection \<open>Exceptions, log entries, outcomes\<close>

datatype exn =
    IndexError
  | KeyError string
  | AttributeError string
  | UnboundLocalError string
  | FileNotFoundError
  | IsADirectoryError
  | OperationalError string
  | ValueError string
  | ServiceError string

datatype level = INFO | WARNING | ERROR

text \<open>A log line; \<open>EntryExn\<close> is a message that ends with the text of an exception.\<close>

datatype log_entry = Entry level string | EntryExn level string exn

subsection \<open>The ledger's backing store\<close>

text \<open>
  The table \<^verbatim>\<open>checked_files(id INTEGER PRIMARY KEY, file_name TEXT)\<close> is a list of
  rows in insertion order. The store is in one of four states: the directory
  \<^verbatim>\<open>database\<close> is missing (\<^verbatim>\<open>sqlite3.connect\<close> raises), the directory exists
  without the file (connecting creates an empty database file), the file exists without
  the table (every statement on the table raises), or the table exists.
\<close>

type_synonym row = "int \<times> string"

datatype storage = NoDirectory | NoFile | NoTable | Table "row list"

subsection \<open>Scratch directories\<close>

datatype node = File string | Dir

text \<open>A directory lists its entries in the order \<^verbatim>\<open>os.listdir\<close> returns them.\<close>

type_synonym directory = "(string \<times> node) list"

subsection \<open>Identifiers and upload documents\<close>

text \<open>The fields of a version-1 UUID, as \<^verbatim>\<open>uuid.UUID\<close> prints them.\<close>

record uuid =
  time_low :: "32 word"
  time_mid :: "16 word"
  time_hi_version :: "16 word"
  clock_seq :: "16 word"
  node :: "48 word"

record document =
  doc_id :: string
  content :: string
  metadata_storage_path :: string

subsection \<open>World and collaborators\<close>

record world =
  storage :: storage
  logger :: "log_entry list"
  temp_blob :: directory
  temp_txt :: directory
  downloads :: "string list"
  extractions :: "(string \<times> string) list"
  uploads :: "(document list \<times> exn option) list"
  uuid_count :: nat

text \<open>
  \<open>downloads\<close>, \<open>extractions\<close> and \<open>uploads\<close> are traces of the calls made to the
  collaborators: the blob names downloaded, the (path, file content) pairs handed to the
  document loader, and the batches sent to \<^verbatim>\<open>search_client.upload_documents\<close>, each
  with the exception the call raised, if any. The state of the remote index is a function
  of the upload trace and is not modelled further.
\<close>

record env =
  blobs :: "string list"
  download_blob :: "string \<Rightarrow> exn + string"
  loader_load :: "string \<Rightarrow> string \<Rightarrow> exn + string list"
  split_text :: "nat \<Rightarrow> nat \<Rightarrow> string \<Rightarrow> string list"
  upload_raises :: "nat \<Rightarrow> document list \<Rightarrow> exn option"
  uuid1 :: "nat \<Rightarrow> uuid"
  listdir_slot :: "string \<Rightarrow> string list \<Rightarrow> nat"

text \<open>
  \<open>blobs\<close> are the names \<^verbatim>\<open>container_client.list_blobs()\<close> yields;
  \<open>loader_load path content\<close> is \<^verbatim>\<open>UnstructuredFileLoader(path).load()\<close> on a file
  with that content, as the list of the \<^verbatim>\<open>page_content\<close> of its documents;
  \<open>split_text size overlap\<close> is \<^verbatim>\<open>RecursiveCharacterTextSplitter.split_text\<close> with
  the separators of the source; \<open>upload_raises k docs\<close> is the exception raised by the
  upload call number \<open>k\<close>; \<open>uuid1 k\<close> is the identifier returned by call number \<open>k\<close> of
  \<^verbatim>\<open>uuid.uuid1()\<close>; \<open>listdir_slot name names\<close> is the position at which a newly
  created entry appears in the listing of a directory.
\<close>

datatype 'a outcome = Return 'a world | Raise exn world

fun and_then :: "'a outcome \<Rightarrow> ('a \<Rightarrow> world \<Rightarrow> 'b outcome) \<Rightarrow> 'b outcome" where
  "and_then (Return x w) f = f x w"
| "and_then (Raise e w) f = Raise e w"

fun world_of :: "'a outcome \<Rightarrow> world" where
  "world_of (Return x w) = w"
| "world_of (Raise e w) = w"

definition info :: "string \<Rightarrow> world \<Rightarrow> unit outcome" where
  "info msg w = Return () (w\<lparr>logger := logger w @ [Entry INFO msg]\<rparr>)"

definition warn :: "string \<Rightarrow> world \<Rightarrow> unit outcome" where
  "warn msg w = Return () (w\<lparr>logger := logger w @ [Entry WARNING msg]\<rparr>)"

definition error :: "string \<Rightarrow> world \<Rightarrow> unit outcome" where
  "error msg w = Return () (w\<lparr>logger := logger w @ [Entry ERROR msg]\<rparr>)"

definition error_exn :: "string \<Rightarrow> exn \<Rightarrow> world \<Rightarrow> world" where
  "error_exn msg e w = w\<lparr>logger := logger w @ [EntryExn ERROR msg e]\<rparr>"

subsection \<open>Ledger: \<^verbatim>\<open>__create_sqlite_database\<close>, \<^verbatim>\<open>__insert_new_file_into_db\<close>, \<^verbatim>\<open>__check_availablity\<close>\<close>

definition db_path :: string where
  "db_path = ''database/file_check_in.db''"

text \<open>
  SQLite gives a row inserted without a key the largest key in the table plus one, and
  1 in an empty table. (At the largest 64-bit key it picks a free key at random; the
  program never sets a key, so its tables do not get there, and the model leaves that
  case out.)
\<close>

definition next_rowid :: "row list \<Rightarrow> int" where
  "next_rowid rows = (if rows = [] then 1 else Max (set (map fst rows)) + 1)"

definition create_sqlite_database :: "world \<Rightarrow> unit outcome" where
  "create_sqlite_database w =
     (let w1 = (if storage w = NoDirectory then w\<lparr>storage := NoFile\<rparr> else w) in
      and_then (info (''Checking for the availablity of the database at '' @ db_path) w1) (\<lambda>_ w2.
        if storage w2 \<noteq> NoFile
        then warn (''Database '' @ [CHR 0x27] @ db_path @ [CHR 0x27] @ '' already exists. Exiting the function.'') w2
        else
          and_then (info ''Creating a persistent table'' w2) (\<lambda>_ w3.
          and_then (info (''Database created at: '' @ db_path @ '', along with table.'') (w3\<lparr>storage := Table []\<rparr>)) (\<lambda>_ w4.
          info ''Closing the connection with the database.'' w4))))"

definition insert_new_file_into_db :: "string \<Rightarrow> world \<Rightarrow> unit outcome" where
  "insert_new_file_into_db file_name w =
     (case storage w of
        NoDirectory \<Rightarrow>
          Raise (UnboundLocalError ''conn'')
            (error_exn ''Failed to insert the file: '' (OperationalError ''unable to open database file'') w)
      | NoFile \<Rightarrow>
          Return ()
            (error_exn ''Failed to insert the file: '' (OperationalError ''no such table: checked_files'')
               (w\<lparr>storage := NoTable\<rparr>))
      | NoTable \<Rightarrow>
          Return ()
            (error_exn ''Failed to insert the file: '' (OperationalError ''no such table: checked_files'') w)
      | Table rows \<Rightarrow>
          Return () (w\<lparr>storage := Table (rows @ [(next_rowid rows, file_name)])\<rparr>))"

text \<open>
  The result of \<^verbatim>\<open>__check_availablity\<close> is \<open>Some False\<close>, \<open>Some True\<close>, or \<open>None\<close> when
  the method falls off its end after the \<^verbatim>\<open>except\<close> branch (Python's \<^verbatim>\<open>None\<close>).
  When \<^verbatim>\<open>sqlite3.connect\<close> itself raises, \<^verbatim>\<open>conn\<close> is unbound in the
  \<^verbatim>\<open>finally\<close> block, and the \<^verbatim>\<open>UnboundLocalError\<close> raised there leaves the method.
\<close>

definition select_by_file_name :: "string \<Rightarrow> row list \<Rightarrow> row list" where
  "select_by_file_name file_name rows = filter (\<lambda>r. snd r = file_name) rows"

definition check_availablity :: "string \<Rightarrow> world \<Rightarrow> bool option outcome" where
  "check_availablity file_name w =
     (case storage w of
        NoDirectory \<Rightarrow>
          Raise (UnboundLocalError ''conn'')
            (error_exn ''Failed to check availablity: '' (OperationalError ''unable to open database file'') w)
      | NoFile \<Rightarrow>
          Return None
            (error_exn ''Failed to check availablity: '' (OperationalError ''no such table: checked_files'')
               (w\<lparr>storage := NoTable\<rparr>))
      | NoTable \<Rightarrow>
          Return None
            (error_exn ''Failed to check availablity: '' (OperationalError ''no such table: checked_files'') w)
      | Table rows \<Rightarrow>
          (let results = select_by_file_name file_name rows in
           if length results > 0 then Return (Some False) w else Return (Some True) w))"

subsection \<open>Strings: \<^verbatim>\<open>str.split\<close> and the printed form of a UUID\<close>

text \<open>\<^verbatim>\<open>s.split(sep)\<close> for a separator of one character; the result is never empty.\<close>

fun split_on :: "char \<Rightarrow> string \<Rightarrow> string list" where
  "split_on sep [] = [[]]"
| "split_on sep (c # cs) =
     (if c = sep then [] # split_on sep cs
      else (case split_on sep cs of [] \<Rightarrow> [[c]] | p # ps \<Rightarrow> (c # p) # ps))"

definition hex_digit :: "nat \<Rightarrow> char" where
  "hex_digit d = ''0123456789abcdef'' ! d"

primrec hex_fixed :: "nat \<Rightarrow> nat \<Rightarrow> string" where
  "hex_fixed 0 n = []"
| "hex_fixed (Suc k) n = hex_fixed k (n div 16) @ [hex_digit (n mod 16)]"

text \<open>\<^verbatim>\<open>str(u)\<close>: the 32 hexadecimal digits of the identifier in groups of 8-4-4-4-12.\<close>

definition uuid_str :: "uuid \<Rightarrow> string" where
  "uuid_str u =
     hex_fixed 8 (unat (time_low u)) @ ''-'' @ hex_fixed 4 (unat (time_mid u)) @ ''-'' @
     hex_fixed 4 (unat (time_hi_version u)) @ ''-'' @ hex_fixed 4 (unat (clock_seq u)) @ ''-'' @
     hex_fixed 12 (unat (node u))"

subsection \<open>Files in the scratch directories\<close>

definition isfile :: "directory \<Rightarrow> string \<Rightarrow> bool" where
  "isfile d file = (case map_of d file of Some (File _) \<Rightarrow> True | _ \<Rightarrow> False)"

definition is_dir_name :: "string \<Rightarrow> bool" where
  "is_dir_name name = (name = [] \<or> name = ''.'' \<or> name = ''..'')"

text \<open>
  \<^verbatim>\<open>open(folder/name, 'w')\<close> followed by a write: an existing file keeps its place in
  the listing, a new one appears where the file system puts it.
\<close>

definition write_file :: "env \<Rightarrow> directory \<Rightarrow> string \<Rightarrow> string \<Rightarrow> exn + directory" where
  "write_file env d name data =
     (if is_dir_name name then Inl IsADirectoryError
      else case map_of d name of
        Some Dir \<Rightarrow> Inl IsADirectoryError
      | Some (File old) \<Rightarrow> Inr (map (\<lambda>(n, x). if n = name then (n, File data) else (n, x)) d)
      | None \<Rightarrow>
          (let k = min (listdir_slot env name (map fst d)) (length d)
           in Inr (take k d @ [(name, File data)] @ drop k d)))"

definition remove_file :: "directory \<Rightarrow> string \<Rightarrow> exn + directory" where
  "remove_file d name =
     (if is_dir_name name then Inl IsADirectoryError
      else case map_of d name of
        Some Dir \<Rightarrow> Inl IsADirectoryError
      | Some (File old) \<Rightarrow> Inr (filter (\<lambda>(n, x). n \<noteq> name) d)
      | None \<Rightarrow> Inl FileNotFoundError)"

definition folder :: "string \<Rightarrow> world \<Rightarrow> directory option" where
  "folder type w =
     (if type = ''blob'' then Some (temp_blob w)
      else if type = ''txt'' then Some (temp_txt w)
      else None)"

fun strip_prefix :: "string \<Rightarrow> string \<Rightarrow> string option" where
  "strip_prefix [] ys = Some ys"
| "strip_prefix (x # xs) [] = None"
| "strip_prefix (x # xs) (y # ys) = (if x = y then strip_prefix xs ys else None)"

definition read_entry :: "directory \<Rightarrow> string \<Rightarrow> world \<Rightarrow> string outcome" where
  "read_entry d file w =
     (case map_of d file of
        Some (File data) \<Rightarrow> Return data w
      | Some Dir \<Rightarrow> Raise IsADirectoryError w
      | None \<Rightarrow> Raise FileNotFoundError w)"

text \<open>Reading the file at a path below one of the two scratch directories.\<close>

definition open_read :: "string \<Rightarrow> world \<Rightarrow> string outcome" where
  "open_read path w =
     (case strip_prefix ''temp/blob/'' path of
        Some file \<Rightarrow> read_entry (temp_blob w) file w
      | None \<Rightarrow>
          (case strip_prefix ''temp/txt/'' path of
             Some file \<Rightarrow> read_entry (temp_txt w) file w
           | None \<Rightarrow> Raise FileNotFoundError w))"

subsection \<open>\<^verbatim>\<open>__get_file_name\<close>, \<^verbatim>\<open>__pdf_to_text\<close>, \<^verbatim>\<open>__chunk_text\<close>\<close>

definition get_file_name :: "string \<Rightarrow> world \<Rightarrow> string outcome" where
  "get_file_name type w =
     (let folder_path = ''temp/'' @ type in
      case folder type w of
        None \<Rightarrow> Raise FileNotFoundError w
      | Some d \<Rightarrow>
          (let files = map fst d;
               file_paths = map (\<lambda>file. folder_path @ ''/'' @ file) (filter (isfile d) files)
           in case file_paths of [] \<Rightarrow> Raise IndexError w | p # ps \<Rightarrow> Return p w))"

text \<open>\<^verbatim>\<open>loader.load()\<close> reads the file the loader was built with.\<close>

definition load :: "env \<Rightarrow> string \<Rightarrow> world \<Rightarrow> string list outcome" where
  "load env path w =
     and_then (open_read path w) (\<lambda>data w1.
       let w2 = w1\<lparr>extractions := extractions w1 @ [(path, data)]\<rparr> in
       case loader_load env path data of
         Inl e \<Rightarrow> Raise e w2
       | Inr docs \<Rightarrow> Return docs w2)"

definition write_temp_txt :: "env \<Rightarrow> string \<Rightarrow> world \<Rightarrow> unit outcome" where
  "write_temp_txt env data w =
     (case write_file env (temp_txt w) ''temp.txt'' data of
        Inl e \<Rightarrow> Raise e w
      | Inr d \<Rightarrow> Return () (w\<lparr>temp_txt := d\<rparr>))"

text \<open>
  The \<^verbatim>\<open>with open('temp/txt/temp.txt', 'w')\<close> block opens (and empties) the file
  before \<^verbatim>\<open>docs[0]\<close> is evaluated, so an empty \<^verbatim>\<open>docs\<close> leaves an empty file behind
  the \<^verbatim>\<open>IndexError\<close>.
\<close>

definition pdf_to_text :: "env \<Rightarrow> world \<Rightarrow> unit outcome" where
  "pdf_to_text env w =
     and_then (info ''Starting the text extractor'' w) (\<lambda>_ w.
     and_then (get_file_name ''blob'' w) (\<lambda>loader_path w.
     and_then (get_file_name ''blob'' w) (\<lambda>p w.
     and_then (info (''Extracting from file '' @ p) w) (\<lambda>_ w.
     and_then (load env loader_path w) (\<lambda>docs w.
     and_then (write_temp_txt env [] w) (\<lambda>_ w.
     (case docs of
        [] \<Rightarrow> Raise IndexError w
      | page_content # _ \<Rightarrow>
          and_then (write_temp_txt env page_content w) (\<lambda>_ w.
          and_then (get_file_name ''blob'' w) (\<lambda>p w.
          info (''Extraction Completed for file '' @ p) w)))))))))"

definition chunk_text :: "env \<Rightarrow> nat \<Rightarrow> nat \<Rightarrow> world \<Rightarrow> string list outcome" where
  "chunk_text env chunk_size overlap w =
     and_then (get_file_name ''txt'' w) (\<lambda>p w.
     and_then (open_read p w) (\<lambda>full_text w.
     and_then (info ''Starting the chunker'' w) (\<lambda>_ w.
       let chunks = split_text env chunk_size overlap full_text in
       and_then (get_file_name ''txt'' w) (\<lambda>p w.
       and_then (info (''Chunked Successfully for file '' @ p) w) (\<lambda>_ w.
       Return chunks w)))))"

subsection \<open>\<^verbatim>\<open>__document_generator\<close> and \<^verbatim>\<open>__upload_documents\<close>\<close>

text \<open>
  The loop over the chunks; nothing in its body raises, so the \<^verbatim>\<open>except\<close> branch of
  the method (which would return the empty list) is never taken.
\<close>

fun generate :: "env \<Rightarrow> string list \<Rightarrow> string \<Rightarrow> document list \<Rightarrow> world \<Rightarrow> document list \<times> world" where
  "generate env [] file_name documents w = (documents, w)"
| "generate env (chunk # chunks) file_name documents w =
     (let unique_id = uuid1 env (uuid_count w);
          w1 = w\<lparr>uuid_count := Suc (uuid_count w)\<rparr>;
          documents1 = documents @
            [\<lparr>doc_id = hd (split_on CHR ''-'' (uuid_str unique_id)),
              content = chunk,
              metadata_storage_path = file_name\<rparr>];
          w2 = w1\<lparr>logger := logger w1 @ [Entry INFO ''Generation of documents successfully completed.'']\<rparr>
      in generate env chunks file_name documents1 w2)"

definition document_generator :: "env \<Rightarrow> string list \<Rightarrow> string \<Rightarrow> world \<Rightarrow> document list outcome" where
  "document_generator env chunks file_name w =
     and_then (info ''Generating documents for the chunks'' w) (\<lambda>_ w.
       case generate env chunks file_name [] w of (documents, w1) \<Rightarrow> Return documents w1)"

definition upload_documents :: "env \<Rightarrow> document list \<Rightarrow> world \<Rightarrow> unit outcome" where
  "upload_documents env documents w =
     (let r = upload_raises env (length (uploads w)) documents;
          w1 = w\<lparr>uploads := uploads w @ [(documents, r)]\<rparr>
      in case r of
           None \<Rightarrow> Return () w1
         | Some e \<Rightarrow> Return () (error_exn ''Failed uploading of documents: '' e w1))"

subsection \<open>\<^verbatim>\<open>trigger_pipeline\<close>\<close>

definition download :: "env \<Rightarrow> string \<Rightarrow> world \<Rightarrow> string outcome" where
  "download env name w =
     (let w1 = w\<lparr>downloads := downloads w @ [name]\<rparr> in
      case download_blob env name of
        Inl e \<Rightarrow> Raise e w1
      | Inr blob_content \<Rightarrow> Return blob_content w1)"

definition write_temp_blob :: "env \<Rightarrow> string \<Rightarrow> string \<Rightarrow> world \<Rightarrow> unit outcome" where
  "write_temp_blob env name data w =
     (case write_file env (temp_blob w) name data of
        Inl e \<Rightarrow> Raise e w
      | Inr d \<Rightarrow> Return () (w\<lparr>temp_blob := d\<rparr>))"

definition remove_temp_blob :: "string \<Rightarrow> world \<Rightarrow> unit outcome" where
  "remove_temp_blob name w =
     (case remove_file (temp_blob w) name of
        Inl e \<Rightarrow> Raise e w
      | Inr d \<Rightarrow> Return () (w\<lparr>temp_blob := d\<rparr>))"

text \<open>The body of the loop over the listed blobs, for the blob called \<open>name\<close>.\<close>

definition pipeline_body :: "env \<Rightarrow> string \<Rightarrow> world \<Rightarrow> unit outcome" where
  "pipeline_body env name w =
     and_then (check_availablity name w) (\<lambda>available w.
       if available = Some True then
         and_then (info (''Intializing process for '' @ name) w) (\<lambda>_ w.
         and_then (download env name w) (\<lambda>blob_content w.
         and_then (write_temp_blob env (last (split_on CHR ''/'' name)) blob_content w) (\<lambda>_ w.
         and_then (pdf_to_text env w) (\<lambda>_ w.
         and_then (chunk_text env 2048 256 w) (\<lambda>chunks w.
         and_then (document_generator env chunks name w) (\<lambda>docs w.
         and_then (info ''Uploading documents to the AI search'' w) (\<lambda>_ w.
         and_then (upload_documents env docs w) (\<lambda>_ w.
         and_then (insert_new_file_into_db name w) (\<lambda>_ w.
         remove_temp_blob (last (split_on CHR ''/'' name)) w)))))))))
       else warn (name @ '' has already been processed'') w)"

fun for_blobs :: "env \<Rightarrow> string list \<Rightarrow> world \<Rightarrow> unit outcome" where
  "for_blobs env [] w = Return () w"
| "for_blobs env (name # names) w =
     and_then (pipeline_body env name w) (\<lambda>_ w. for_blobs env names w)"

definition trigger_pipeline :: "env \<Rightarrow> world \<Rightarrow> unit outcome" where
  "trigger_pipeline env w =
     and_then (info ''Pipeline Triggered'' w) (\<lambda>_ w. for_blobs env (blobs env) w)"

subsection \<open>\<^verbatim>\<open>__init__\<close>\<close>

text \<open>
  The argument \<^verbatim>\<open>index_name\<close> is annotated \<^verbatim>\<open>str\<close>, but Python does not check
  annotations, and the constructor tests the value itself. \<open>PyOther\<close> stands for any value
  that is neither a \<^verbatim>\<open>str\<close> nor an \<^verbatim>\<open>int\<close> (a float, a list, ...); \<^verbatim>\<open>bool\<close> is a
  subclass of \<^verbatim>\<open>int\<close>.
\<close>

datatype py_value = PyStr string | PyInt int | PyBool bool | PyNone | PyOther

definition isinstance_str_int :: "py_value \<Rightarrow> bool" where
  "isinstance_str_int v = (case v of PyStr s \<Rightarrow> True | PyInt i \<Rightarrow> True | PyBool b \<Rightarrow> True | _ \<Rightarrow> False)"

definition digit_char :: "nat \<Rightarrow> char" where
  "digit_char d = ''0123456789'' ! d"

function str_nat :: "nat \<Rightarrow> string" where
  "str_nat n = (if n < 10 then [digit_char n] else str_nat (n div 10) @ [digit_char (n mod 10)])"
  by pat_completeness auto
termination
  by (relation "measure id") auto

text \<open>\<^verbatim>\<open>str(index_name)\<close> on the values that pass the test.\<close>

definition py_str :: "py_value \<Rightarrow> string" where
  "py_str v =
     (case v of
        PyStr s \<Rightarrow> s
      | PyInt i \<Rightarrow> (if i < 0 then CHR ''-'' # str_nat (nat (- i)) else str_nat (nat i))
      | PyBool b \<Rightarrow> (if b then ''True'' else ''False'')
      | PyNone \<Rightarrow> ''None''
      | PyOther \<Rightarrow> [])"

text \<open>
  What the constructor reads from outside: the process environment after
  \<^verbatim>\<open>load_dotenv()\<close>, and whether \<^verbatim>\<open>BlobServiceClient.from_connection_string\<close>
  rejects a connection string.
\<close>

record startup =
  environ :: "(string \<times> string) list"
  from_connection_string_raises :: "string \<Rightarrow> exn option"

text \<open>
  The attributes of the constructed object; the two search clients are represented by the
  arguments they were built with.
\<close>

record langchain_blob_ai_search =
  connection_string :: string
  container_name :: string
  index_name :: string
  search_client :: "string \<times> string"
  search_index_client :: string

definition environ_get :: "startup \<Rightarrow> string \<Rightarrow> world \<Rightarrow> string outcome" where
  "environ_get s key w =
     (case map_of (environ s) key of None \<Rightarrow> Raise (KeyError key) w | Some v \<Rightarrow> Return v w)"

definition from_connection_string :: "startup \<Rightarrow> string \<Rightarrow> world \<Rightarrow> unit outcome" where
  "from_connection_string s conn_str w =
     (case from_connection_string_raises s conn_str of None \<Rightarrow> Return () w | Some e \<Rightarrow> Raise e w)"

text \<open>
  In the \<^verbatim>\<open>else\<close> branch of the test the \<^verbatim>\<open>ValueError\<close> is built but not raised, so
  the branch only logs, and the attribute \<^verbatim>\<open>self.index_name\<close> stays unassigned
  (\<open>None\<close> below). Reading it two lines later raises \<^verbatim>\<open>AttributeError\<close>.
\<close>

definition init :: "startup \<Rightarrow> py_value \<Rightarrow> world \<Rightarrow> langchain_blob_ai_search outcome" where
  "init s index_name_arg w =
     and_then (create_sqlite_database w) (\<lambda>_ w.
     and_then (environ_get s ''AZURE_STORAGE_CONNECTION_STRING'' w) (\<lambda>connection_string w.
     and_then (environ_get s ''AZURE_CONTAINER_NAME'' w) (\<lambda>container_name w.
     and_then (environ_get s ''AZURE_COGNITIVE_SEARCH_SERVICE_NAME'' w) (\<lambda>service_name w.
     and_then (environ_get s ''AZURE_COGNITIVE_SEARCH_KEY'' w) (\<lambda>admin_key w.
     and_then (info ''Creating a Blob Service Client with the provided connection string.'' w) (\<lambda>_ w.
     and_then (from_connection_string s connection_string w) (\<lambda>_ w.
     and_then (info ''Created Blob Service Client'' w) (\<lambda>_ w.
     and_then
       (if isinstance_str_int index_name_arg \<and> index_name_arg \<noteq> PyStr []
        then Return (Some (py_str index_name_arg)) w
        else and_then (error ''Index name must be an str or int'' w) (\<lambda>_ w. Return None w))
       (\<lambda>self_index_name w.
     let endpoint = ''https://'' @ service_name @ ''.search.windows.net'' in
     and_then (info ''Creating a Search Client with the provided connection string.'' w) (\<lambda>_ w.
       (case self_index_name of
          None \<Rightarrow> Raise (AttributeError ''index_name'') w
        | Some name \<Rightarrow>
            and_then (info ''Creating a Search Client.'' w) (\<lambda>_ w.
            and_then (info ''Initialization successfully Completed'' w) (\<lambda>_ w.
            Return \<lparr>connection_string = connection_string, container_name = container_name,
                    index_name = name, search_client = (endpoint, name),
                    search_index_client = endpoint\<rparr> w)))))))))))))"

section \<open>Vocabulary of the statements and proofs\<close>

subsection \<open>Sequences of ledger operations\<close>

text \<open>
  The three operations of the ledger, to state what holds after any further use of it:
  \<open>Initialize\<close> is \<^verbatim>\<open>__create_sqlite_database\<close>, \<open>Record\<close> is
  \<^verbatim>\<open>__insert_new_file_into_db\<close>, \<open>IsNew\<close> is \<^verbatim>\<open>__check_availablity\<close> with its
  answer dropped.
\<close>

datatype ledger_op = Initialize | Record string | IsNew string

fun ledger_step :: "ledger_op \<Rightarrow> world \<Rightarrow> unit outcome" where
  "ledger_step Initialize w = create_sqlite_database w"
| "ledger_step (Record file_name) w = insert_new_file_into_db file_name w"
| "ledger_step (IsNew file_name) w = and_then (check_availablity file_name w) (\<lambda>_ w. Return () w)"

fun ledger_run :: "ledger_op list \<Rightarrow> world \<Rightarrow> unit outcome" where
  "ledger_run [] w = Return () w"
| "ledger_run (op # ops) w = and_then (ledger_step op w) (\<lambda>_ w. ledger_run ops w)"

text \<open>The table exists and holds a row with this file name.\<close>

definition recorded :: "string \<Rightarrow> world \<Rightarrow> bool" where
  "recorded name w = (case storage w of Table rows \<Rightarrow> name \<in> snd ` set rows | _ \<Rightarrow> False)"

subsection \<open>Relations between worlds used in the proofs\<close>

text \<open>
  \<open>calm\<close>: the ledger, the upload and download traces and \<^verbatim>\<open>temp/blob\<close> are
  unchanged; \<open>quiet\<close>: moreover no file was handed to the loader; \<open>only_logged\<close>:
  nothing but the log changed. \<open>settled name\<close>: the ledger check does not answer true for
  the name, because the table holds it or because the table is missing.
\<close>

definition calm :: "world \<Rightarrow> world \<Rightarrow> bool" where
  "calm w w' = (storage w' = storage w \<and> uploads w' = uploads w \<and>
                downloads w' = downloads w \<and> temp_blob w' = temp_blob w)"

definition quiet :: "world \<Rightarrow> world \<Rightarrow> bool" where
  "quiet w w' = (calm w w' \<and> extractions w' = extractions w)"

definition only_logged :: "world \<Rightarrow> world \<Rightarrow> bool" where
  "only_logged w w' =
     (storage w' = storage w \<and> uploads w' = uploads w \<and> downloads w' = downloads w \<and>
      extractions w' = extractions w \<and> temp_blob w' = temp_blob w \<and> temp_txt w' = temp_txt w \<and>
      uuid_count w' = uuid_count w)"

definition settled :: "string \<Rightarrow> world \<Rightarrow> bool" where
  "settled name w =
     (case storage w of Table rows \<Rightarrow> name \<in> snd ` set rows | NoTable \<Rightarrow> True | _ \<Rightarrow> False)"

subsection \<open>The documents built from a list of chunks\<close>

text \<open>The documents \<^verbatim>\<open>__document_generator\<close> builds when the next identifier is number \<open>n\<close>.\<close>

fun numbered_documents :: "env \<Rightarrow> string \<Rightarrow> nat \<Rightarrow> string list \<Rightarrow> document list" where
  "numbered_documents env file_name n [] = []"
| "numbered_documents env file_name n (chunk # chunks) =
     \<lparr>doc_id = hex_fixed 8 (unat (time_low (uuid1 env n))), content = chunk,
      metadata_storage_path = file_name\<rparr> # numbered_documents env file_name (Suc n) chunks"

section \<open>Concrete worlds and collaborators\<close>

text \<open>A ledger that already holds \<^verbatim>\<open>a.pdf\<close>, empty scratch directories, no calls made yet.\<close>

definition ledger_world :: world where
  "ledger_world =
     \<lparr>storage = Table [(1, ''a.pdf'')], logger = [], temp_blob = [], temp_txt = [],
      downloads = [], extractions = [], uploads = [], uuid_count = 0\<rparr>"

subsection \<open>A container with one new blob, and collaborators that answer\<close>

definition demo_uuid :: "nat \<Rightarrow> uuid" where
  "demo_uuid k = \<lparr>time_low = 0x6ba7b810 + of_nat k, time_mid = 0x9dad, time_hi_version = 0x11d1,
                  clock_seq = 0x80b4, node = 0x00c04fd430c8\<rparr>"

definition demo_env :: env where
  "demo_env =
     \<lparr>blobs = [''docs/new.pdf'', ''a.pdf''],
      download_blob = (\<lambda>name. if name = ''docs/new.pdf'' then Inr ''NEW'' else Inl (ServiceError ''BlobNotFound'')),
      loader_load = (\<lambda>path data. Inr [''text of '' @ data]),
      split_text = (\<lambda>chunk_size overlap text. if text = [] then [] else [text]),
      upload_raises = (\<lambda>k docs. None),
      uuid1 = demo_uuid,
      listdir_slot = (\<lambda>name names. length names)\<rparr>"

text \<open>The same, with an upload call that always raises.\<close>

definition failing_env :: env where
  "failing_env = demo_env\<lparr>upload_raises := (\<lambda>k docs. Some (ServiceError ''HttpResponseError''))\<rparr>"

definition new_pdf_document :: document where
  "new_pdf_document =
     \<lparr>doc_id = ''6ba7b810'', content = ''text of NEW'', metadata_storage_path = ''docs/new.pdf''\<rparr>"

text \<open>The world after \<^verbatim>\<open>trigger_pipeline\<close> has run once from \<open>ledger_world\<close>.\<close>

definition first_run_world :: world where
  "first_run_world =
     \<lparr>storage = Table [(1, ''a.pdf''), (2, ''docs/new.pdf'')],
      logger =
        [Entry INFO ''Pipeline Triggered'',
         Entry INFO ''Intializing process for docs/new.pdf'',
         Entry INFO ''Starting the text extractor'',
         Entry INFO ''Extracting from file temp/blob/new.pdf'',
         Entry INFO ''Extraction Completed for file temp/blob/new.pdf'',
         Entry INFO ''Starting the chunker'',
         Entry INFO ''Chunked Successfully for file temp/txt/temp.txt'',
         Entry INFO ''Generating documents for the chunks'',
         Entry INFO ''Generation of documents successfully completed.'',
         Entry INFO ''Uploading documents to the AI search'',
         Entry WARNING ''a.pdf has already been processed''],
      temp_blob = [], temp_txt = [(''temp.txt'', File ''text of NEW'')],
      downloads = [''docs/new.pdf''],
      extractions = [(''temp/blob/new.pdf'', ''NEW'')],
      uploads = [([new_pdf_document], None)],
      uuid_count = Suc 0\<rparr>"

text \<open>\<open>ledger_world\<close> with a file left behind in \<^verbatim>\<open>temp/blob\<close>.\<close>

definition stale_world :: world where
  "stale_world = ledger_world\<lparr>temp_blob := [(''old.pdf'', File ''OLD'')]\<rparr>"

text \<open>
  Two version-1 identifiers whose timestamps lie \<open>2\<^sup>3\<^sup>2\<close> ticks of 100 ns apart: they
  differ in \<open>time_mid\<close> and agree in \<open>time_low\<close>.
\<close>

definition colliding_env :: env where
  "colliding_env = demo_env\<lparr>uuid1 := (\<lambda>k. (demo_uuid 0)\<lparr>time_mid := 0x9dad + of_nat k\<rparr>)\<rparr>"

text \<open>An environment with the four variables set and a connection string that is accepted.\<close>

definition demo_startup :: startup where
  "demo_startup =
     \<lparr>environ =
        [(''AZURE_STORAGE_CONNECTION_STRING'', ''UseDevelopmentStorage=true''),
         (''AZURE_CONTAINER_NAME'', ''documents''),
         (''AZURE_COGNITIVE_SEARCH_SERVICE_NAME'', ''demo''),
         (''AZURE_COGNITIVE_SEARCH_KEY'', ''key'')],
      from_connection_string_raises = (\<lambda>conn_str. None)\<rparr>"

section \<open>Properties\<close>

subsection \<open>The ledger\<close>

lemma select_nonempty_iff: "(select_by_file_name n rows \<noteq> []) = (n \<in> snd ` set rows)"
  by (induction rows) (auto simp: select_by_file_name_def)

text \<open>
  Claim C4. \<^verbatim>\<open>__check_availablity\<close> answers true exactly when the table has no row with
  the given file name. When the query raises (the database file has no table, or did not
  exist and was just created empty by the connection), the error is logged, nothing is
  raised, and the method returns Python's \<^verbatim>\<open>None\<close>. (A failing
  \<^verbatim>\<open>sqlite3.connect\<close> is not a failing query: there the \<^verbatim>\<open>finally\<close> block raises.)
\<close>

theorem check_availablity_spec:
  "(storage w = Table rows \<longrightarrow>
      check_availablity file_name w = Return (Some (file_name \<notin> snd ` set rows)) w) \<and>
   (storage w = NoTable \<longrightarrow>
      check_availablity file_name w =
        Return None (w\<lparr>logger := logger w @
          [EntryExn ERROR ''Failed to check availablity: '' (OperationalError ''no such table: checked_files'')]\<rparr>)) \<and>
   (storage w = NoFile \<longrightarrow>
      check_availablity file_name w =
        Return None (w\<lparr>storage := NoTable, logger := logger w @
          [EntryExn ERROR ''Failed to check availablity: '' (OperationalError ''no such table: checked_files'')]\<rparr>))"
  by (auto simp: check_availablity_def error_exn_def select_nonempty_iff Let_def)

theorem check_availablity_spec_witness:
  "check_availablity ''a.pdf'' ledger_world = Return (Some False) ledger_world \<and>
   check_availablity ''b.pdf'' ledger_world = Return (Some True) ledger_world \<and>
   check_availablity ''a.pdf'' (ledger_world\<lparr>storage := NoTable\<rparr>) =
     Return None (ledger_world\<lparr>storage := NoTable, logger :=
       [EntryExn ERROR ''Failed to check availablity: '' (OperationalError ''no such table: checked_files'')]\<rparr>)"
  using check_availablity_spec [of ledger_world "[(1, ''a.pdf'')]" "''a.pdf''"]
    check_availablity_spec [of ledger_world "[(1, ''a.pdf'')]" "''b.pdf''"]
    check_availablity_spec [of "ledger_world\<lparr>storage := NoTable\<rparr>" "[]" "''a.pdf''"]
  by (simp add: ledger_world_def)

lemma next_rowid_fresh: "next_rowid rows \<notin> fst ` set rows"
proof (cases "rows = []")
  case True then show ?thesis by simp
next
  case False
  have "\<And>k. k \<in> set (map fst rows) \<Longrightarrow> k \<le> Max (set (map fst rows))"
    by (rule Max_ge) auto
  then have "\<And>k. k \<in> fst ` set rows \<Longrightarrow> k < next_rowid rows"
    using False by (fastforce simp: next_rowid_def)
  then show ?thesis by blast
qed

lemma next_rowid_append: "next_rowid (rows @ [(next_rowid rows, n)]) = next_rowid rows + 1"
proof (cases "rows = []")
  case True then show ?thesis by (simp add: next_rowid_def)
next
  case False
  then have ne: "set (map fst rows) \<noteq> {}" by simp
  have "Max (insert (Max (set (map fst rows)) + 1) (set (map fst rows))) = Max (set (map fst rows)) + 1"
    using ne by (subst Max_insert) auto
  then show ?thesis using False by (simp add: next_rowid_def)
qed

lemma insert_on_table:
  "storage w = Table rows \<Longrightarrow>
   insert_new_file_into_db n w = Return () (w\<lparr>storage := Table (rows @ [(next_rowid rows, n)])\<rparr>)"
  by (simp add: insert_new_file_into_db_def)

text \<open>
  Claim C5. Recording is not idempotent: on an existing table, two calls of
  \<^verbatim>\<open>__insert_new_file_into_db\<close> with the same file name both return normally and
  leave two more rows with that name, under two different keys, neither of which was in
  the table before. Only the key is constrained; \<open>file_name\<close> is not.
\<close>

theorem insert_twice_two_rows:
  assumes "storage w = Table rows"
  shows "\<exists>i j. i \<noteq> j \<and> i \<notin> fst ` set rows \<and> j \<notin> fst ` set rows \<and>
     and_then (insert_new_file_into_db file_name w) (\<lambda>_. insert_new_file_into_db file_name) =
       Return () (w\<lparr>storage := Table (rows @ [(i, file_name), (j, file_name)])\<rparr>) \<and>
     length (select_by_file_name file_name (rows @ [(i, file_name), (j, file_name)])) =
       length (select_by_file_name file_name rows) + 2"
proof -
  let ?i = "next_rowid rows"
  let ?w1 = "w\<lparr>storage := Table (rows @ [(?i, file_name)])\<rparr>"
  have 1: "insert_new_file_into_db file_name w = Return () ?w1"
    using assms by (rule insert_on_table)
  have 2: "insert_new_file_into_db file_name ?w1 =
      Return () (?w1\<lparr>storage := Table ((rows @ [(?i, file_name)]) @ [(?i + 1, file_name)])\<rparr>)"
    using insert_on_table [of ?w1 "rows @ [(?i, file_name)]" file_name]
    by (simp add: next_rowid_append)
  have fresh: "?i \<notin> fst ` set rows" by (rule next_rowid_fresh)
  have fresh2: "?i + 1 \<notin> fst ` set rows"
    using next_rowid_fresh [of "rows @ [(?i, file_name)]"] by (simp add: next_rowid_append)
  have run: "and_then (insert_new_file_into_db file_name w) (\<lambda>_. insert_new_file_into_db file_name) =
       Return () (w\<lparr>storage := Table (rows @ [(?i, file_name), (?i + 1, file_name)])\<rparr>)"
    using 1 2 by simp
  have len: "length (select_by_file_name file_name (rows @ [(?i, file_name), (?i + 1, file_name)])) =
       length (select_by_file_name file_name rows) + 2"
    by (simp add: select_by_file_name_def)
  have "?i \<noteq> ?i + 1" by simp
  with fresh fresh2 run len show ?thesis by blast
qed

theorem insert_twice_two_rows_witness:
  "and_then (insert_new_file_into_db ''a.pdf'' ledger_world) (\<lambda>_. insert_new_file_into_db ''a.pdf'') =
     Return () (ledger_world\<lparr>storage := Table [(1, ''a.pdf''), (2, ''a.pdf''), (3, ''a.pdf'')]\<rparr>) \<and>
   (\<exists>i j. i \<noteq> j \<and> i \<notin> fst ` set [(1::int, ''a.pdf'')] \<and> j \<notin> fst ` set [(1::int, ''a.pdf'')] \<and>
     and_then (insert_new_file_into_db ''a.pdf'' ledger_world) (\<lambda>_. insert_new_file_into_db ''a.pdf'') =
       Return () (ledger_world\<lparr>storage := Table ([(1, ''a.pdf'')] @ [(i, ''a.pdf''), (j, ''a.pdf'')])\<rparr>) \<and>
     length (select_by_file_name ''a.pdf'' ([(1, ''a.pdf'')] @ [(i, ''a.pdf''), (j, ''a.pdf'')])) =
       length (select_by_file_name ''a.pdf'' [(1, ''a.pdf'')]) + 2)"
proof
  show "and_then (insert_new_file_into_db ''a.pdf'' ledger_world) (\<lambda>_. insert_new_file_into_db ''a.pdf'') =
     Return () (ledger_world\<lparr>storage := Table [(1, ''a.pdf''), (2, ''a.pdf''), (3, ''a.pdf'')]\<rparr>)"
    by (simp add: insert_new_file_into_db_def ledger_world_def next_rowid_def)
next
  have "storage ledger_world = Table [(1, ''a.pdf'')]" by (simp add: ledger_world_def)
  then show "\<exists>i j. i \<noteq> j \<and> i \<notin> fst ` set [(1::int, ''a.pdf'')] \<and> j \<notin> fst ` set [(1::int, ''a.pdf'')] \<and>
     and_then (insert_new_file_into_db ''a.pdf'' ledger_world) (\<lambda>_. insert_new_file_into_db ''a.pdf'') =
       Return () (ledger_world\<lparr>storage := Table ([(1, ''a.pdf'')] @ [(i, ''a.pdf''), (j, ''a.pdf'')])\<rparr>) \<and>
     length (select_by_file_name ''a.pdf'' ([(1, ''a.pdf'')] @ [(i, ''a.pdf''), (j, ''a.pdf'')])) =
       length (select_by_file_name ''a.pdf'' [(1, ''a.pdf'')]) + 2"
    by (rule insert_twice_two_rows)
qed

lemma recorded_check: "recorded name w \<Longrightarrow> check_availablity name w = Return (Some False) w"
  by (auto simp: recorded_def check_availablity_def select_nonempty_iff Let_def split: storage.splits)

lemma ledger_step_recorded:
  "recorded name w \<Longrightarrow> \<exists>w'. ledger_step op w = Return () w' \<and> recorded name w'"
  by (cases op)
     (auto simp: recorded_def create_sqlite_database_def insert_new_file_into_db_def
        check_availablity_def info_def warn_def Let_def split: storage.splits)

lemma ledger_run_recorded:
  "recorded name w \<Longrightarrow> \<exists>w'. ledger_run ops w = Return () w' \<and> recorded name w'"
proof (induction ops arbitrary: w)
  case Nil
  then show ?case by simp
next
  case (Cons op ops)
  from ledger_step_recorded [OF Cons.prems, of op]
  obtain w1 where s: "ledger_step op w = Return () w1" and r: "recorded name w1" by blast
  from Cons.IH [OF r] s show ?case by simp
qed

text \<open>
  Claim C3. Once \<^verbatim>\<open>__insert_new_file_into_db\<close> has succeeded for a name (the table
  exists, so the insert is committed), \<^verbatim>\<open>__check_availablity\<close> answers false for that
  name after any further sequence of ledger operations, on any names: every one of them
  returns normally and the row stays.
\<close>

theorem record_then_never_new:
  assumes "storage w = Table rows"
  shows "\<exists>w1 w2. insert_new_file_into_db name w = Return () w1 \<and>
           ledger_run ops w1 = Return () w2 \<and>
           check_availablity name w2 = Return (Some False) w2"
proof -
  let ?w1 = "w\<lparr>storage := Table (rows @ [(next_rowid rows, name)])\<rparr>"
  have 1: "insert_new_file_into_db name w = Return () ?w1"
    using assms by (rule insert_on_table)
  have "recorded name ?w1" by (simp add: recorded_def)
  from ledger_run_recorded [OF this, of ops]
  obtain w2 where 2: "ledger_run ops ?w1 = Return () w2" and r: "recorded name w2" by blast
  from 1 2 recorded_check [OF r] show ?thesis by blast
qed

theorem record_then_never_new_witness:
  "storage ledger_world = Table [(1, ''a.pdf'')] \<and>
   (\<exists>w1 w2. insert_new_file_into_db ''b.pdf'' ledger_world = Return () w1 \<and>
      ledger_run [Record ''c.pdf'', IsNew ''b.pdf'', Initialize, Record ''a.pdf'', IsNew ''d.pdf''] w1
        = Return () w2 \<and>
      check_availablity ''b.pdf'' w2 = Return (Some False) w2)"
proof -
  have h: "storage ledger_world = Table [(1, ''a.pdf'')]" by (simp add: ledger_world_def)
  show ?thesis using h record_then_never_new [OF h] by blast
qed

subsection \<open>What the steps of the pipeline leave unchanged\<close>


lemma quiet_refl: "quiet w w"
  by (simp add: quiet_def calm_def)

lemma calm_refl: "calm w w"
  by (simp add: calm_def)

lemma quiet_calm: "quiet w w' \<Longrightarrow> calm w w'"
  by (simp add: quiet_def)

lemma rel_and_then:
  assumes trans: "\<And>a b c. R a b \<Longrightarrow> R b c \<Longrightarrow> R a c"
    and first: "R w (world_of m)"
    and rest: "\<And>x w1. m = Return x w1 \<Longrightarrow> R w1 (world_of (f x w1))"
  shows "R w (world_of (and_then m f))"
proof (cases m)
  case (Return x w1)
  with first have "R w w1" by simp
  moreover from rest [OF Return] have "R w1 (world_of (f x w1))" .
  ultimately show ?thesis using Return trans by simp
next
  case (Raise e w1)
  with first show ?thesis by simp
qed

lemma quiet_and_then:
  "quiet w (world_of m) \<Longrightarrow> (\<And>x w1. m = Return x w1 \<Longrightarrow> quiet w1 (world_of (f x w1))) \<Longrightarrow>
   quiet w (world_of (and_then m f))"
  by (rule rel_and_then [where R = quiet]) (auto simp: quiet_def calm_def)

lemma calm_and_then:
  "calm w (world_of m) \<Longrightarrow> (\<And>x w1. m = Return x w1 \<Longrightarrow> calm w1 (world_of (f x w1))) \<Longrightarrow>
   calm w (world_of (and_then m f))"
  by (rule rel_and_then [where R = calm]) (auto simp: calm_def)

lemma quiet_info: "quiet w (world_of (info msg w))"
  by (simp add: info_def quiet_def calm_def)

lemma quiet_get_file_name: "quiet w (world_of (get_file_name type w))"
  by (simp add: get_file_name_def quiet_def calm_def Let_def split: option.splits list.splits)

lemma quiet_open_read: "quiet w (world_of (open_read path w))"
  by (simp add: open_read_def read_entry_def quiet_def calm_def split: option.splits node.splits)

lemma calm_load: "calm w (world_of (load env path w))"
  unfolding load_def
  by (rule calm_and_then [OF quiet_calm [OF quiet_open_read]])
     (simp add: calm_def Let_def split: sum.splits)

lemma quiet_write_temp_txt: "quiet w (world_of (write_temp_txt env data w))"
  by (simp add: write_temp_txt_def quiet_def calm_def split: sum.splits)

lemma quiet_after_load:
  "quiet w (world_of
     (and_then (write_temp_txt env [] w) (\<lambda>_ w.
        (case docs of
           [] \<Rightarrow> Raise IndexError w
         | page_content # _ \<Rightarrow>
             and_then (write_temp_txt env page_content w) (\<lambda>_ w.
             and_then (get_file_name ''blob'' w) (\<lambda>p w.
             info (''Extraction Completed for file '' @ p) w))))))"
  by (intro quiet_and_then quiet_write_temp_txt)
     (simp add: quiet_refl split: list.splits,
      intro conjI allI impI quiet_and_then quiet_info quiet_get_file_name quiet_write_temp_txt)

lemma calm_pdf_to_text: "calm w (world_of (pdf_to_text env w))"
  unfolding pdf_to_text_def
  by (intro calm_and_then quiet_calm [OF quiet_info] quiet_calm [OF quiet_get_file_name]
        calm_load quiet_calm [OF quiet_after_load])

lemma quiet_chunk_text: "quiet w (world_of (chunk_text env chunk_size overlap w))"
  unfolding chunk_text_def Let_def
  by (intro quiet_and_then quiet_info quiet_get_file_name quiet_open_read) (simp add: quiet_refl)

lemma generate_quiet: "generate env chunks file_name documents w = (ds, w1) \<Longrightarrow> quiet w w1"
proof (induction chunks arbitrary: documents w)
  case Nil
  then show ?case by (simp add: quiet_refl)
next
  case (Cons chunk chunks)
  from Cons.prems have "quiet (w\<lparr>uuid_count := Suc (uuid_count w),
      logger := logger w @ [Entry INFO ''Generation of documents successfully completed.'']\<rparr>) w1"
    by (auto simp: Let_def intro: Cons.IH)
  then show ?case by (simp add: quiet_def calm_def)
qed

lemma document_generator_returns:
  "\<exists>ds w1. document_generator env chunks file_name w = Return ds w1 \<and> quiet w w1"
proof -
  let ?w0 = "w\<lparr>logger := logger w @ [Entry INFO ''Generating documents for the chunks'']\<rparr>"
  obtain ds w1 where g: "generate env chunks file_name [] ?w0 = (ds, w1)"
    by (cases "generate env chunks file_name [] ?w0") auto
  from generate_quiet [OF g] have "quiet w w1" by (simp add: quiet_def calm_def)
  with g show ?thesis by (simp add: document_generator_def info_def)
qed

lemma map_of_overwrite_other:
  "m \<noteq> name \<Longrightarrow>
   map_of (map (\<lambda>(n, x). if n = name then (n, v') else (n, x)) d) m = map_of d m"
  by (induction d) auto

lemma map_of_overwrite_same:
  "map_of d name = Some v \<Longrightarrow>
   map_of (map (\<lambda>(n, x). if n = name then (n, v') else (n, x)) d) name = Some v'"
  by (induction d) (auto split: if_splits)

lemma map_of_slot:
  assumes "map_of d name = None"
  shows "map_of (take k d @ (name, v) # drop k d) m = (if m = name then Some v else map_of d m)"
proof -
  have none: "map_of (take k d) name = None"
    using assms by (metis append_take_drop_id map_of_append map_add_None)
  have "map_of d m = map_of (take k d @ drop k d) m" by simp
  also have "\<dots> = (case map_of (take k d) m of None \<Rightarrow> map_of (drop k d) m | Some y \<Rightarrow> Some y)"
    by (simp only: map_of_append map_add_def)
  finally have d: "map_of d m = (case map_of (take k d) m of None \<Rightarrow> map_of (drop k d) m | Some y \<Rightarrow> Some y)" .
  show ?thesis
    using none d by (auto simp: map_add_def split: option.splits)
qed

lemma write_file_lookup:
  assumes "write_file env d name data = Inr d'"
  shows "map_of d' m = (if m = name then Some (File data) else map_of d m)" and "\<not> is_dir_name name"
proof -
  from assms show "\<not> is_dir_name name"
    by (auto simp: write_file_def split: if_splits)
  show "map_of d' m = (if m = name then Some (File data) else map_of d m)"
  proof (cases "map_of d name")
    case None
    with assms have "d' = take (min (listdir_slot env name (map fst d)) (length d)) d @
        (name, File data) # drop (min (listdir_slot env name (map fst d)) (length d)) d"
      by (auto simp: write_file_def Let_def split: if_splits)
    then show ?thesis using map_of_slot [OF None] by simp
  next
    case (Some x)
    with assms obtain old where x: "x = File old"
      by (cases x) (auto simp: write_file_def split: if_splits)
    with Some assms have "d' = map (\<lambda>(n, x). if n = name then (n, File data) else (n, x)) d"
      by (auto simp: write_file_def split: if_splits)
    then show ?thesis
      using map_of_overwrite_same [OF Some] map_of_overwrite_other [of m name] by auto
  qed
qed

lemma remove_written:
  "map_of d name = Some (File data) \<Longrightarrow> \<not> is_dir_name name \<Longrightarrow>
   remove_file d name = Inr (filter (\<lambda>(n, x). n \<noteq> name) d)"
  by (simp add: remove_file_def)


lemma tail_returns:
  assumes "storage w = Table rows" and "map_of (temp_blob w) seg = Some (File data)"
    and "\<not> is_dir_name seg"
  shows "\<exists>w'.
     and_then (info ''Uploading documents to the AI search'' w) (\<lambda>_ w.
     and_then (upload_documents env docs w) (\<lambda>_ w.
     and_then (insert_new_file_into_db name w) (\<lambda>_ w.
     remove_temp_blob seg w))) = Return () w' \<and>
     uploads w' = uploads w @ [(docs, upload_raises env (length (uploads w)) docs)] \<and>
     storage w' = Table (rows @ [(next_rowid rows, name)]) \<and>
     downloads w' = downloads w \<and> extractions w' = extractions w \<and>
     (\<forall>e. upload_raises env (length (uploads w)) docs = Some e \<longrightarrow>
        last (logger w') = EntryExn ERROR ''Failed uploading of documents: '' e)"
  using assms
  by (simp add: info_def upload_documents_def insert_new_file_into_db_def remove_temp_blob_def
      remove_written error_exn_def Let_def split: option.splits)

lemma check_new:
  "storage w = Table rows \<Longrightarrow> name \<notin> snd ` set rows \<Longrightarrow>
   check_availablity name w = Return (Some True) w"
  by (simp add: check_availablity_def select_nonempty_iff Let_def)

lemma body_new:
  assumes st: "storage w = Table rows" and new: "name \<notin> snd ` set rows"
  shows "(\<exists>e w'. pipeline_body env name w = Raise e w' \<and> uploads w' = uploads w \<and>
            storage w' = storage w) \<or>
         (\<exists>docs w'. pipeline_body env name w = Return () w' \<and>
            uploads w' = uploads w @ [(docs, upload_raises env (length (uploads w)) docs)] \<and>
            storage w' = Table (rows @ [(next_rowid rows, name)]) \<and>
            downloads w' = downloads w @ [name] \<and>
            (\<forall>e. upload_raises env (length (uploads w)) docs = Some e \<longrightarrow>
               last (logger w') = EntryExn ERROR ''Failed uploading of documents: '' e))"
proof -
  define seg where "seg = last (split_on CHR ''/'' name)"
  define w0 where "w0 = w\<lparr>logger := logger w @ [Entry INFO (''Intializing process for '' @ name)]\<rparr>"
  define w1 where "w1 = w0\<lparr>downloads := downloads w0 @ [name]\<rparr>"
  let ?finish = "\<lambda>docs w.
     and_then (info ''Uploading documents to the AI search'' w) (\<lambda>_ w.
     and_then (upload_documents env docs w) (\<lambda>_ w.
     and_then (insert_new_file_into_db name w) (\<lambda>_ w.
     remove_temp_blob seg w)))"
  let ?from_chunks = "\<lambda>chunks w. and_then (document_generator env chunks name w) ?finish"
  let ?from_text = "\<lambda>(u::unit) w. and_then (chunk_text env 2048 256 w) ?from_chunks"
  let ?from_blob = "\<lambda>(u::unit) w. and_then (pdf_to_text env w) ?from_text"
  let ?L = "?thesis"
  have body: "pipeline_body env name w =
      and_then (download env name w0) (\<lambda>blob_content w.
        and_then (write_temp_blob env seg blob_content w) ?from_blob)"
    by (simp add: pipeline_body_def check_new [OF st new] info_def w0_def seg_def)
  have w1: "uploads w1 = uploads w" "storage w1 = Table rows" "downloads w1 = downloads w @ [name]"
    by (simp_all add: w1_def w0_def st)
  show ?thesis
  proof (cases "download_blob env name")
    case (Inl e)
    then have "pipeline_body env name w = Raise e w1"
      by (simp add: body download_def w1_def)
    with w1 st show ?thesis by simp
  next
    case (Inr blob_content)
    then have body1: "pipeline_body env name w = and_then (write_temp_blob env seg blob_content w1) ?from_blob"
      by (simp add: body download_def w1_def)
    show ?thesis
    proof (cases "write_file env (temp_blob w1) seg blob_content")
      case (Inl e)
      then have "pipeline_body env name w = Raise e w1"
        by (simp add: body1 write_temp_blob_def)
      with w1 st show ?thesis by simp
    next
      case wr: (Inr d)
      define w2 where "w2 = w1\<lparr>temp_blob := d\<rparr>"
      have body2: "pipeline_body env name w = and_then (pdf_to_text env w2) ?from_text"
        using wr by (simp add: body1 write_temp_blob_def w2_def)
      have w2: "uploads w2 = uploads w" "storage w2 = Table rows" "downloads w2 = downloads w @ [name]"
        "map_of (temp_blob w2) seg = Some (File blob_content)" "\<not> is_dir_name seg"
        using w1 write_file_lookup [OF wr] by (simp_all add: w2_def)
      show ?thesis
      proof (cases "pdf_to_text env w2")
        case (Raise e w3)
        from calm_pdf_to_text [of w2 env] Raise have "calm w2 w3" by simp
        with w2 have "uploads w3 = uploads w" "storage w3 = storage w"
          by (simp_all add: calm_def st)
        with Raise body2 show ?thesis by simp
      next
        case (Return u w3)
        from calm_pdf_to_text [of w2 env] Return have c3: "calm w2 w3" by simp
        have body3: "pipeline_body env name w = and_then (chunk_text env 2048 256 w3) ?from_chunks"
          using Return by (simp add: body2)
        show ?thesis
        proof (cases "chunk_text env 2048 256 w3")
          case (Raise e w4)
          from quiet_chunk_text [of w3 env 2048 256] Raise have "quiet w3 w4" by simp
          with c3 w2 have "uploads w4 = uploads w" "storage w4 = storage w"
            by (simp_all add: calm_def quiet_def st)
          with Raise body3 show ?thesis by simp
        next
          case (Return chunks w4)
          from quiet_chunk_text [of w3 env 2048 256] Return have q4: "quiet w3 w4" by simp
          obtain docs w5 where gen: "document_generator env chunks name w4 = Return docs w5"
            and q5: "quiet w4 w5"
            using document_generator_returns by blast
          have body5: "pipeline_body env name w = ?finish docs w5"
            using Return gen by (simp add: body3)
          have w5: "uploads w5 = uploads w" "storage w5 = Table rows" "downloads w5 = downloads w @ [name]"
            "map_of (temp_blob w5) seg = Some (File blob_content)"
            using c3 q4 q5 w2 by (simp_all add: calm_def quiet_def)
          from tail_returns [OF w5(2) w5(4) w2(5), of env docs name]
          obtain w' where "?finish docs w5 = Return () w'"
            "uploads w' = uploads w5 @ [(docs, upload_raises env (length (uploads w5)) docs)]"
            "storage w' = Table (rows @ [(next_rowid rows, name)])"
            "downloads w' = downloads w5"
            "\<forall>e. upload_raises env (length (uploads w5)) docs = Some e \<longrightarrow>
               last (logger w') = EntryExn ERROR ''Failed uploading of documents: '' e"
            by blast
          with body5 w5 show ?thesis by auto
        qed
      qed
    qed
  qed
qed


subsection \<open>The loop body and the whole run\<close>


lemma check_recorded:
  "storage w = Table rows \<Longrightarrow> name \<in> snd ` set rows \<Longrightarrow>
   check_availablity name w = Return (Some False) w"
  by (simp add: check_availablity_def select_nonempty_iff Let_def)

lemma check_false_iff:
  "check_availablity name w = Return (Some False) w' \<Longrightarrow>
   w' = w \<and> (\<exists>rows. storage w = Table rows \<and> name \<in> snd ` set rows)"
  by (auto simp: check_availablity_def select_nonempty_iff Let_def split: storage.splits if_splits)

lemma hex_fixed_numeral:
  "hex_fixed (numeral k) n = hex_fixed (pred_numeral k) (n div 16) @ [hex_digit (n mod 16)]"
  by (subst numeral_eq_Suc) simp

lemma demo_uuid_str: "uuid_str (demo_uuid 0) = ''6ba7b810-9dad-11d1-80b4-00c04fd430c8''"
  by (simp add: uuid_str_def demo_uuid_def hex_fixed_numeral hex_digit_def)

lemmas run_defs = pipeline_body_def check_availablity_def select_by_file_name_def info_def warn_def
  download_def write_temp_blob_def write_file_def is_dir_name_def pdf_to_text_def get_file_name_def
  folder_def isfile_def load_def open_read_def read_entry_def write_temp_txt_def chunk_text_def
  document_generator_def upload_documents_def error_exn_def insert_new_file_into_db_def
  next_rowid_def remove_temp_blob_def remove_file_def Let_def

text \<open>
  Claim C8. When the ledger check answers false for a blob's name (the name is already
  recorded), the loop body only appends the warning to the log: the ledger, the download,
  extraction and upload traces and both scratch directories are as before.
\<close>

theorem skip_has_no_side_effects:
  assumes "check_availablity name w = Return (Some False) w'"
  shows "pipeline_body env name w =
           Return () (w\<lparr>logger := logger w @ [Entry WARNING (name @ '' has already been processed'')]\<rparr>) \<and>
         storage (world_of (pipeline_body env name w)) = storage w \<and>
         uploads (world_of (pipeline_body env name w)) = uploads w \<and>
         downloads (world_of (pipeline_body env name w)) = downloads w \<and>
         extractions (world_of (pipeline_body env name w)) = extractions w \<and>
         temp_blob (world_of (pipeline_body env name w)) = temp_blob w \<and>
         temp_txt (world_of (pipeline_body env name w)) = temp_txt w"
proof -
  from check_false_iff [OF assms] have "check_availablity name w = Return (Some False) w"
    using assms by simp
  then show ?thesis by (simp add: pipeline_body_def warn_def)
qed

theorem skip_has_no_side_effects_witness:
  "check_availablity ''a.pdf'' ledger_world = Return (Some False) ledger_world \<and>
   pipeline_body demo_env ''a.pdf'' ledger_world =
     Return () (ledger_world\<lparr>logger := [Entry WARNING ''a.pdf has already been processed'']\<rparr>) \<and>
   uploads (world_of (pipeline_body demo_env ''a.pdf'' ledger_world)) = [] \<and>
   downloads (world_of (pipeline_body demo_env ''a.pdf'' ledger_world)) = [] \<and>
   storage (world_of (pipeline_body demo_env ''a.pdf'' ledger_world)) = Table [(1, ''a.pdf'')]"
proof -
  have h: "check_availablity ''a.pdf'' ledger_world = Return (Some False) ledger_world"
    by (simp add: check_availablity_def select_by_file_name_def ledger_world_def)
  from skip_has_no_side_effects [OF h, of demo_env] h show ?thesis
    by (simp add: ledger_world_def)
qed

lemma upload_needs_table:
  assumes "uploads (world_of (pipeline_body env name w)) \<noteq> uploads w"
  shows "\<exists>rows. storage w = Table rows \<and> name \<notin> snd ` set rows"
proof (cases "storage w")
  case (Table rows)
  have "name \<notin> snd ` set rows"
  proof
    assume "name \<in> snd ` set rows"
    from check_recorded [OF Table this]
    have "uploads (world_of (pipeline_body env name w)) = uploads w"
      by (simp add: pipeline_body_def warn_def)
    with assms show False by simp
  qed
  with Table show ?thesis by simp
qed (use assms in \<open>simp_all add: pipeline_body_def check_availablity_def warn_def error_exn_def\<close>)

text \<open>
  Claim C1. \<^verbatim>\<open>__upload_documents\<close> never raises: an exception of the upload call is
  logged and the method returns. So whenever the loop body made an upload call
  that failed, the body still returned normally, the row for the blob
  was inserted, the last log line is the upload error, and the ledger check now answers
  false for the blob.
\<close>

theorem failed_upload_still_recorded:
  assumes up: "uploads (world_of (pipeline_body env name w)) = uploads w @ [(docs, Some e)]"
  shows "(\<exists>v'. upload_documents env ds v = Return () v' \<and> storage v' = storage v) \<and>
         (\<exists>rows w'. storage w = Table rows \<and>
            pipeline_body env name w = Return () w' \<and>
            storage w' = Table (rows @ [(next_rowid rows, name)]) \<and>
            last (logger w') = EntryExn ERROR ''Failed uploading of documents: '' e \<and>
            check_availablity name w' = Return (Some False) w')"
proof
  show "\<exists>v'. upload_documents env ds v = Return () v' \<and> storage v' = storage v"
    by (simp add: upload_documents_def error_exn_def Let_def split: option.splits)
next
  from up have "uploads (world_of (pipeline_body env name w)) \<noteq> uploads w" by simp
  from upload_needs_table [OF this] obtain rows
    where st: "storage w = Table rows" and new: "name \<notin> snd ` set rows" by blast
  from body_new [OF st new, of env]
  have "\<exists>w'. pipeline_body env name w = Return () w' \<and>
            storage w' = Table (rows @ [(next_rowid rows, name)]) \<and>
            last (logger w') = EntryExn ERROR ''Failed uploading of documents: '' e \<and>
            check_availablity name w' = Return (Some False) w'"
  proof
    assume "\<exists>e w'. pipeline_body env name w = Raise e w' \<and> uploads w' = uploads w \<and>
            storage w' = storage w"
    with up show ?thesis by auto
  next
    assume "\<exists>docs w'. pipeline_body env name w = Return () w' \<and>
            uploads w' = uploads w @ [(docs, upload_raises env (length (uploads w)) docs)] \<and>
            storage w' = Table (rows @ [(next_rowid rows, name)]) \<and>
            downloads w' = downloads w @ [name] \<and>
            (\<forall>e. upload_raises env (length (uploads w)) docs = Some e \<longrightarrow>
               last (logger w') = EntryExn ERROR ''Failed uploading of documents: '' e)"
    then obtain docs' w' where b: "pipeline_body env name w = Return () w'"
      and u: "uploads w' = uploads w @ [(docs', upload_raises env (length (uploads w)) docs')]"
      and s: "storage w' = Table (rows @ [(next_rowid rows, name)])"
      and l: "\<forall>e. upload_raises env (length (uploads w)) docs' = Some e \<longrightarrow>
               last (logger w') = EntryExn ERROR ''Failed uploading of documents: '' e"
      by blast
    from up b u have "upload_raises env (length (uploads w)) docs' = Some e" by auto
    with l have "last (logger w') = EntryExn ERROR ''Failed uploading of documents: '' e" by simp
    moreover from s have "check_availablity name w' = Return (Some False) w'"
      by (intro check_recorded [OF s]) simp
    ultimately show ?thesis using b s by simp
  qed
  with st show "\<exists>rows w'. storage w = Table rows \<and>
            pipeline_body env name w = Return () w' \<and>
            storage w' = Table (rows @ [(next_rowid rows, name)]) \<and>
            last (logger w') = EntryExn ERROR ''Failed uploading of documents: '' e \<and>
            check_availablity name w' = Return (Some False) w'" by blast
qed

theorem failed_upload_still_recorded_witness:
  "uploads (world_of (pipeline_body failing_env ''docs/new.pdf'' ledger_world)) =
     uploads ledger_world @ [([new_pdf_document], Some (ServiceError ''HttpResponseError''))] \<and>
   (\<exists>w'. pipeline_body failing_env ''docs/new.pdf'' ledger_world = Return () w' \<and>
      storage w' = Table [(1, ''a.pdf''), (2, ''docs/new.pdf'')] \<and>
      last (logger w') = EntryExn ERROR ''Failed uploading of documents: '' (ServiceError ''HttpResponseError'') \<and>
      check_availablity ''docs/new.pdf'' w' = Return (Some False) w')"
proof -
  have h1: "storage ledger_world = Table [(1, ''a.pdf'')]"
    by (simp add: ledger_world_def)
  have h2: "uploads (world_of (pipeline_body failing_env ''docs/new.pdf'' ledger_world)) =
     uploads ledger_world @ [([new_pdf_document], Some (ServiceError ''HttpResponseError''))]"
    by (simp add: run_defs failing_env_def demo_env_def ledger_world_def demo_uuid_str
        new_pdf_document_def)
  from failed_upload_still_recorded [OF h2] h1 h2 show ?thesis
    by (auto simp: next_rowid_def)
qed

lemma settled_storage: "storage w' = storage w \<Longrightarrow> settled n w' = settled n w"
  by (simp add: settled_def)

lemma body_skip:
  assumes "settled name w"
  shows "\<exists>w'. pipeline_body env name w = Return () w' \<and> only_logged w w'"
proof (cases "storage w")
  case (Table rows)
  with assms have "name \<in> snd ` set rows" by (simp add: settled_def)
  from check_recorded [OF Table this] show ?thesis
    by (simp add: pipeline_body_def warn_def only_logged_def)
next
  case NoTable
  then show ?thesis
    by (simp add: pipeline_body_def check_availablity_def warn_def error_exn_def only_logged_def)
qed (use assms in \<open>simp_all add: settled_def\<close>)

lemma body_settles:
  assumes "pipeline_body env name w = Return () w'"
  shows "settled name w' \<and> (\<forall>m. settled m w \<longrightarrow> settled m w')"
proof (cases "storage w")
  case NoDirectory
  with assms show ?thesis by (simp add: pipeline_body_def check_availablity_def)
next
  case NoFile
  with assms show ?thesis
    by (auto simp: pipeline_body_def check_availablity_def warn_def error_exn_def settled_def)
next
  case NoTable
  with assms show ?thesis
    by (auto simp: pipeline_body_def check_availablity_def warn_def error_exn_def settled_def)
next
  case (Table rows)
  show ?thesis
  proof (cases "name \<in> snd ` set rows")
    case True
    with Table have s: "settled name w" by (simp add: settled_def)
    from body_skip [OF s, of env] assms have "storage w' = storage w"
      by (auto simp: only_logged_def)
    from settled_storage [OF this] s show ?thesis by simp
  next
    case False
    from body_new [OF Table False, of env] assms
    have "storage w' = Table (rows @ [(next_rowid rows, name)])" by auto
    with Table show ?thesis by (auto simp: settled_def)
  qed
qed

lemma for_blobs_settles:
  "for_blobs env names w = Return () w' \<Longrightarrow>
   (\<forall>n \<in> set names. settled n w') \<and> (\<forall>m. settled m w \<longrightarrow> settled m w')"
proof (induction names arbitrary: w)
  case Nil
  then show ?case by simp
next
  case (Cons name names)
  from Cons.prems obtain w1 where b: "pipeline_body env name w = Return () w1"
    and r: "for_blobs env names w1 = Return () w'"
    by (cases "pipeline_body env name w") auto
  from body_settles [OF b] Cons.IH [OF r] show ?case by auto
qed

lemma for_blobs_skip:
  "\<forall>n \<in> set names. settled n w \<Longrightarrow>
   \<exists>w'. for_blobs env names w = Return () w' \<and> only_logged w w'"
proof (induction names arbitrary: w)
  case Nil
  then show ?case by (simp add: only_logged_def)
next
  case (Cons name names)
  from Cons.prems have "settled name w" by simp
  from body_skip [OF this, of env]
  obtain w1 where b: "pipeline_body env name w = Return () w1" and e: "only_logged w w1"
    by blast
  from e have "storage w1 = storage w" by (simp add: only_logged_def)
  from settled_storage [OF this] Cons.prems have "\<forall>n \<in> set names. settled n w1"
    by simp
  from Cons.IH [OF this] obtain w' where r: "for_blobs env names w1 = Return () w'"
    and e': "only_logged w1 w'" by blast
  from e e' have "only_logged w w'" by (simp add: only_logged_def)
  with b r show ?case by simp
qed

lemma settled_check:
  "settled name w \<Longrightarrow>
   \<exists>w'. check_availablity name w = Return (Some False) w' \<or> check_availablity name w = Return None w'"
  by (auto simp: settled_def check_availablity_def select_nonempty_iff Let_def split: storage.splits)

text \<open>
  Claim C2. After a run of \<^verbatim>\<open>trigger_pipeline\<close> that returned, a second run over the
  same listing returns as well and only logs: no upload call, no download, no extraction,
  no change of the ledger or of the scratch directories. For every listed blob the ledger
  check does not answer true: it answers false, or \<^verbatim>\<open>None\<close> when the table is missing
  (then every blob was skipped in the first run too).
\<close>

theorem second_run_ingests_nothing:
  assumes "trigger_pipeline env w = Return () w1"
  shows "\<exists>w2. trigger_pipeline env w1 = Return () w2 \<and>
           uploads w2 = uploads w1 \<and> storage w2 = storage w1 \<and>
           downloads w2 = downloads w1 \<and> extractions w2 = extractions w1 \<and>
           temp_blob w2 = temp_blob w1 \<and> temp_txt w2 = temp_txt w1 \<and>
           (\<forall>name \<in> set (blobs env). \<exists>w'.
              check_availablity name w1 = Return (Some False) w' \<or>
              check_availablity name w1 = Return None w')"
proof -
  from assms have "for_blobs env (blobs env) (w\<lparr>logger := logger w @ [Entry INFO ''Pipeline Triggered'']\<rparr>)
      = Return () w1"
    by (simp add: trigger_pipeline_def info_def)
  from for_blobs_settles [OF this] have s: "\<forall>n \<in> set (blobs env). settled n w1" by simp
  then have "\<forall>n \<in> set (blobs env).
      settled n (w1\<lparr>logger := logger w1 @ [Entry INFO ''Pipeline Triggered'']\<rparr>)"
    by (simp add: settled_def)
  from for_blobs_skip [OF this, of env]
  obtain w2 where r: "for_blobs env (blobs env) (w1\<lparr>logger := logger w1 @ [Entry INFO ''Pipeline Triggered'']\<rparr>)
      = Return () w2"
    and e: "only_logged (w1\<lparr>logger := logger w1 @ [Entry INFO ''Pipeline Triggered'']\<rparr>) w2"
    by blast
  from r have run: "trigger_pipeline env w1 = Return () w2"
    by (simp add: trigger_pipeline_def info_def)
  from e have same: "uploads w2 = uploads w1" "storage w2 = storage w1" "downloads w2 = downloads w1"
    "extractions w2 = extractions w1" "temp_blob w2 = temp_blob w1" "temp_txt w2 = temp_txt w1"
    by (simp_all add: only_logged_def)
  from s settled_check have "\<forall>name \<in> set (blobs env). \<exists>w'.
      check_availablity name w1 = Return (Some False) w' \<or> check_availablity name w1 = Return None w'"
    by blast
  with run same show ?thesis by blast
qed


theorem second_run_ingests_nothing_witness:
  "trigger_pipeline demo_env ledger_world = Return () first_run_world \<and>
   (\<exists>w2. trigger_pipeline demo_env first_run_world = Return () w2 \<and>
      uploads w2 = uploads first_run_world \<and> storage w2 = storage first_run_world \<and>
      downloads w2 = downloads first_run_world \<and> extractions w2 = extractions first_run_world \<and>
      temp_blob w2 = temp_blob first_run_world \<and> temp_txt w2 = temp_txt first_run_world \<and>
      (\<forall>name \<in> set (blobs demo_env). \<exists>w'.
         check_availablity name first_run_world = Return (Some False) w' \<or>
         check_availablity name first_run_world = Return None w'))"
proof -
  have h: "trigger_pipeline demo_env ledger_world = Return () first_run_world"
    by (simp add: trigger_pipeline_def run_defs demo_env_def ledger_world_def demo_uuid_str
        new_pdf_document_def first_run_world_def)
  from second_run_ingests_nothing [OF h] h show ?thesis by simp
qed

subsection \<open>Which file the extractor reads\<close>

lemma keeps_extractions_and_then:
  "extractions (world_of m) = extractions w \<Longrightarrow>
   (\<And>x w1. m = Return x w1 \<Longrightarrow> extractions (world_of (f x w1)) = extractions w1) \<Longrightarrow>
   extractions (world_of (and_then m f)) = extractions w"
  by (cases m) auto

lemma first_listed_is_file:
  assumes "filter (isfile d) (map fst d) = q # rest"
  shows "\<exists>data. map_of d q = Some (File data)"
proof -
  have "q \<in> set (filter (isfile d) (map fst d))" using assms by simp
  then have "isfile d q" by simp
  then show ?thesis by (auto simp: isfile_def split: option.splits node.splits)
qed

lemma get_file_name_blob:
  "filter (isfile (temp_blob w)) (map fst (temp_blob w)) = q # rest \<Longrightarrow>
   get_file_name ''blob'' w = Return (''temp/blob/'' @ q) w"
  by (simp add: get_file_name_def folder_def Let_def)

lemma open_read_blob: "open_read (''temp/blob/'' @ q) w = read_entry (temp_blob w) q w"
  by (simp add: open_read_def)

lemma pdf_to_text_extracts:
  assumes ls: "filter (isfile (temp_blob w)) (map fst (temp_blob w)) = q # rest"
    and data: "map_of (temp_blob w) q = Some (File data)"
  shows "extractions (world_of (pdf_to_text env w)) = extractions w @ [(''temp/blob/'' @ q, data)]"
proof -
  let ?w0 = "w\<lparr>logger := logger w @ [Entry INFO ''Starting the text extractor'']\<rparr>"
  let ?w1 = "?w0\<lparr>logger := logger ?w0 @ [Entry INFO (''Extracting from file '' @ ''temp/blob/'' @ q)]\<rparr>"
  let ?w2 = "?w1\<lparr>extractions := extractions ?w1 @ [(''temp/blob/'' @ q, data)]\<rparr>"
  let ?after = "\<lambda>docs w.
     and_then (write_temp_txt env [] w) (\<lambda>_ w.
        (case docs of
           [] \<Rightarrow> Raise IndexError w
         | page_content # _ \<Rightarrow>
             and_then (write_temp_txt env page_content w) (\<lambda>_ w.
             and_then (get_file_name ''blob'' w) (\<lambda>p w.
             info (''Extraction Completed for file '' @ p) w))))"
  have g0: "get_file_name ''blob'' ?w0 = Return (''temp/blob/'' @ q) ?w0"
    using ls by (intro get_file_name_blob) simp
  have ld: "load env (''temp/blob/'' @ q) ?w1 =
      (case loader_load env (''temp/blob/'' @ q) data of Inl e \<Rightarrow> Raise e ?w2 | Inr docs \<Rightarrow> Return docs ?w2)"
    using data
    by (simp add: load_def open_read_def read_entry_def Let_def split: sum.splits)
  have unfold: "pdf_to_text env w = and_then (load env (''temp/blob/'' @ q) ?w1) ?after"
    using g0 by (simp add: pdf_to_text_def info_def)
  have x2: "extractions ?w2 = extractions w @ [(''temp/blob/'' @ q, data)]"
    by simp
  show ?thesis
  proof (cases "loader_load env (''temp/blob/'' @ q) data")
    case (Inl e)
    with ld have "load env (''temp/blob/'' @ q) ?w1 = Raise e ?w2" by simp
    with unfold have "pdf_to_text env w = Raise e ?w2" by simp
    then show ?thesis by simp
  next
    case (Inr docs)
    with ld have "load env (''temp/blob/'' @ q) ?w1 = Return docs ?w2" by simp
    with unfold have "pdf_to_text env w = ?after docs ?w2" by simp
    moreover from quiet_after_load [of ?w2 env docs]
    have "extractions (world_of (?after docs ?w2)) = extractions ?w2" by (simp add: quiet_def)
    ultimately show ?thesis by simp
  qed
qed

lemma document_generator_extractions:
  "extractions (world_of (document_generator env chunks file_name w)) = extractions w"
  using document_generator_returns [of env chunks file_name w] by (auto simp: quiet_def)

lemma chunk_text_extractions:
  "extractions (world_of (chunk_text env chunk_size overlap w)) = extractions w"
  using quiet_chunk_text [of w env chunk_size overlap] by (simp add: quiet_def)

lemma upload_documents_extractions:
  "extractions (world_of (upload_documents env docs w)) = extractions w"
  by (simp add: upload_documents_def error_exn_def Let_def split: option.splits)

lemma insert_extractions:
  "extractions (world_of (insert_new_file_into_db name w)) = extractions w"
  by (simp add: insert_new_file_into_db_def error_exn_def split: storage.splits)

lemma remove_extractions:
  "extractions (world_of (remove_temp_blob seg w)) = extractions w"
  by (simp add: remove_temp_blob_def split: sum.splits)

lemma info_extractions: "extractions (world_of (info msg w)) = extractions w"
  by (simp add: info_def)

lemma after_text_extractions:
  "extractions (world_of
     (and_then (chunk_text env 2048 256 w) (\<lambda>chunks w.
      and_then (document_generator env chunks name w) (\<lambda>docs w.
      and_then (info ''Uploading documents to the AI search'' w) (\<lambda>_ w.
      and_then (upload_documents env docs w) (\<lambda>_ w.
      and_then (insert_new_file_into_db name w) (\<lambda>_ w.
      remove_temp_blob seg w))))))) = extractions w"
  by (intro keeps_extractions_and_then chunk_text_extractions document_generator_extractions
      info_extractions upload_documents_extractions insert_extractions remove_extractions)

text \<open>
  Claim C9. The extractor is not given the path of the blob just downloaded. For a new
  blob that was downloaded and written to \<^verbatim>\<open>temp/blob\<close>, the file handed to the loader
  is the first file in the listing of \<^verbatim>\<open>temp/blob\<close>, whatever its name. When the listing
  has exactly one file, that file is the downloaded one; with more files it need not be,
  and the text of another file is then chunked, uploaded under the current blob's name and
  the blob is recorded as ingested.
\<close>

theorem extracts_first_listed_file:
  assumes st: "storage w = Table rows" and new: "name \<notin> snd ` set rows"
    and dl: "download_blob env name = Inr blob_content"
    and wr: "write_file env (temp_blob w) (last (split_on CHR ''/'' name)) blob_content = Inr d"
    and ls: "filter (isfile d) (map fst d) = q # rest"
  shows "\<exists>data. map_of d q = Some (File data) \<and>
           extractions (world_of (pipeline_body env name w)) =
             extractions w @ [(''temp/blob/'' @ q, data)] \<and>
           (rest = [] \<longrightarrow> q = last (split_on CHR ''/'' name) \<and> data = blob_content)"
proof -
  define seg where "seg = last (split_on CHR ''/'' name)"
  define w2 where "w2 = w\<lparr>logger := logger w @ [Entry INFO (''Intializing process for '' @ name)],
                           downloads := downloads w @ [name], temp_blob := d\<rparr>"
  let ?after_text = "\<lambda>(u::unit) w.
     and_then (chunk_text env 2048 256 w) (\<lambda>chunks w.
      and_then (document_generator env chunks name w) (\<lambda>docs w.
      and_then (info ''Uploading documents to the AI search'' w) (\<lambda>_ w.
      and_then (upload_documents env docs w) (\<lambda>_ w.
      and_then (insert_new_file_into_db name w) (\<lambda>_ w.
      remove_temp_blob seg w)))))"
  from first_listed_is_file [OF ls] obtain data where data: "map_of d q = Some (File data)"
    by blast
  have body: "pipeline_body env name w = and_then (pdf_to_text env w2) ?after_text"
    using dl wr
    by (simp add: pipeline_body_def check_new [OF st new] info_def download_def
        write_temp_blob_def w2_def seg_def)
  have px: "extractions (world_of (pdf_to_text env w2)) = extractions w @ [(''temp/blob/'' @ q, data)]"
    using pdf_to_text_extracts [of w2 q rest data env] ls data by (simp add: w2_def)
  have ex: "extractions (world_of (pipeline_body env name w)) = extractions w @ [(''temp/blob/'' @ q, data)]"
  proof (cases "pdf_to_text env w2")
    case (Raise e w3)
    with body px show ?thesis by simp
  next
    case (Return u w3)
    with body have "pipeline_body env name w = ?after_text u w3" by simp
    with after_text_extractions [of env w3 name seg] px Return show ?thesis by simp
  qed
  have one: "rest = [] \<longrightarrow> q = seg \<and> data = blob_content"
  proof
    assume "rest = []"
    from write_file_lookup(1) [OF wr, of "last (split_on CHR ''/'' name)"]
    have f: "map_of d seg = Some (File blob_content)" by (simp add: seg_def)
    then have "seg \<in> set (map fst d)" by (force dest: map_of_SomeD)
    with f have "seg \<in> set (filter (isfile d) (map fst d))" by (simp add: isfile_def)
    with ls \<open>rest = []\<close> have "seg = q" by simp
    with f data show "q = seg \<and> data = blob_content" by simp
  qed
  from data ex one show ?thesis unfolding seg_def by blast
qed

theorem extracts_first_listed_file_witness:
  "storage stale_world = Table [(1, ''a.pdf'')] \<and>
   download_blob demo_env ''docs/new.pdf'' = Inr ''NEW'' \<and>
   write_file demo_env (temp_blob stale_world) (last (split_on CHR ''/'' ''docs/new.pdf'')) ''NEW'' =
     Inr [(''old.pdf'', File ''OLD''), (''new.pdf'', File ''NEW'')] \<and>
   extractions (world_of (pipeline_body demo_env ''docs/new.pdf'' stale_world)) =
     [(''temp/blob/old.pdf'', ''OLD'')] \<and>
   uploads (world_of (pipeline_body demo_env ''docs/new.pdf'' stale_world)) =
     [([\<lparr>doc_id = ''6ba7b810'', content = ''text of OLD'', metadata_storage_path = ''docs/new.pdf''\<rparr>], None)] \<and>
   storage (world_of (pipeline_body demo_env ''docs/new.pdf'' stale_world)) =
     Table [(1, ''a.pdf''), (2, ''docs/new.pdf'')] \<and>
   extractions (world_of (pipeline_body demo_env ''docs/new.pdf'' ledger_world)) =
     [(''temp/blob/new.pdf'', ''NEW'')]"
proof -
  have st: "storage stale_world = Table [(1, ''a.pdf'')]"
    and st': "storage ledger_world = Table [(1, ''a.pdf'')]"
    by (simp_all add: stale_world_def ledger_world_def)
  have new: "''docs/new.pdf'' \<notin> snd ` set [(1::int, ''a.pdf'')]" by simp
  have dl: "download_blob demo_env ''docs/new.pdf'' = Inr ''NEW''"
    by (simp add: demo_env_def)
  have wr: "write_file demo_env (temp_blob stale_world) (last (split_on CHR ''/'' ''docs/new.pdf'')) ''NEW'' =
     Inr [(''old.pdf'', File ''OLD''), (''new.pdf'', File ''NEW'')]"
    by (simp add: write_file_def is_dir_name_def demo_env_def stale_world_def ledger_world_def)
  have wr': "write_file demo_env (temp_blob ledger_world) (last (split_on CHR ''/'' ''docs/new.pdf'')) ''NEW'' =
     Inr [(''new.pdf'', File ''NEW'')]"
    by (simp add: write_file_def is_dir_name_def demo_env_def ledger_world_def)
  have ls: "filter (isfile [(''old.pdf'', File ''OLD''), (''new.pdf'', File ''NEW'')])
      (map fst [(''old.pdf'', File ''OLD''), (''new.pdf'', File ''NEW'')]) = ''old.pdf'' # [''new.pdf'']"
    by (simp add: isfile_def)
  have ls': "filter (isfile [(''new.pdf'', File ''NEW'')]) (map fst [(''new.pdf'', File ''NEW'')]) =
      ''new.pdf'' # []"
    by (simp add: isfile_def)
  have up: "uploads (world_of (pipeline_body demo_env ''docs/new.pdf'' stale_world)) =
     [([\<lparr>doc_id = ''6ba7b810'', content = ''text of OLD'', metadata_storage_path = ''docs/new.pdf''\<rparr>], None)]"
    and sto: "storage (world_of (pipeline_body demo_env ''docs/new.pdf'' stale_world)) =
     Table [(1, ''a.pdf''), (2, ''docs/new.pdf'')]"
    by (simp_all add: run_defs demo_env_def stale_world_def ledger_world_def demo_uuid_str)
  from extracts_first_listed_file [OF st new dl wr ls]
    extracts_first_listed_file [OF st' new dl wr' ls']
  show ?thesis using st dl wr up sto by (simp add: stale_world_def ledger_world_def)
qed

subsection \<open>The document builder\<close>

lemma hex_digit_not_dash: "d < 16 \<Longrightarrow> hex_digit d \<noteq> CHR ''-''"
proof -
  have "CHR ''-'' \<notin> set ''0123456789abcdef''" by simp
  moreover assume "d < 16"
  then have "hex_digit d \<in> set ''0123456789abcdef''"
    unfolding hex_digit_def by (intro nth_mem) simp
  ultimately show ?thesis by metis
qed

lemma hex_fixed_no_dash: "CHR ''-'' \<notin> set (hex_fixed k n)"
proof (induction k arbitrary: n)
  case 0
  then show ?case by simp
next
  case (Suc k)
  have "hex_digit (n mod 16) \<noteq> CHR ''-''" by (rule hex_digit_not_dash) simp
  with Suc [of "n div 16"] show ?case by auto
qed

lemma split_on_first: "sep \<notin> set xs \<Longrightarrow> split_on sep (xs @ sep # ys) = xs # split_on sep ys"
  by (induction xs) auto

lemma uuid_first_field:
  "hd (split_on CHR ''-'' (uuid_str u)) = hex_fixed 8 (unat (time_low u))"
  by (simp add: uuid_str_def split_on_first [OF hex_fixed_no_dash])

lemma hex_digit_inj: "a < 16 \<Longrightarrow> b < 16 \<Longrightarrow> hex_digit a = hex_digit b \<Longrightarrow> a = b"
proof -
  have d: "distinct ''0123456789abcdef''" by simp
  assume "a < 16" "b < 16" "hex_digit a = hex_digit b"
  then show "a = b"
    unfolding hex_digit_def using d by (simp add: nth_eq_iff_index_eq)
qed

lemma hex_fixed_inj:
  "n < 16 ^ k \<Longrightarrow> m < 16 ^ k \<Longrightarrow> hex_fixed k n = hex_fixed k m \<Longrightarrow> n = m"
proof (induction k arbitrary: n m)
  case 0
  then show ?case by simp
next
  case (Suc k)
  from Suc.prems(3) have hi: "hex_fixed k (n div 16) = hex_fixed k (m div 16)"
    and lo: "hex_digit (n mod 16) = hex_digit (m mod 16)" by simp_all
  from Suc.prems(1,2) have b: "n div 16 < 16 ^ k" "m div 16 < 16 ^ k"
    by (simp_all add: less_mult_imp_div_less mult.commute)
  from Suc.IH [OF b hi] have "n div 16 = m div 16" .
  moreover from lo have "n mod 16 = m mod 16" by (intro hex_digit_inj) simp_all
  ultimately show ?case by (metis div_mult_mod_eq)
qed

lemma first_field_inj:
  "hex_fixed 8 (unat (a :: 32 word)) = hex_fixed 8 (unat b) \<Longrightarrow> a = b"
proof -
  have "unat a < 2 ^ 32" "unat b < 2 ^ 32"
    using unsigned_less [of a, where 'a = nat] unsigned_less [of b, where 'a = nat] by simp_all
  then have "unat a < 16 ^ 8" "unat b < 16 ^ 8" by simp_all
  moreover assume "hex_fixed 8 (unat a) = hex_fixed 8 (unat b)"
  ultimately have "unat a = unat b" by (rule hex_fixed_inj)
  then show ?thesis by (simp add: word_unat_eq_iff)
qed

lemma generate_numbered:
  "\<exists>w'. generate env chunks file_name documents w =
          (documents @ numbered_documents env file_name (uuid_count w) chunks, w')"
proof (induction chunks arbitrary: documents w)
  case Nil
  then show ?case by simp
next
  case (Cons chunk chunks)
  let ?w2 = "w\<lparr>uuid_count := Suc (uuid_count w),
      logger := logger w @ [Entry INFO ''Generation of documents successfully completed.'']\<rparr>"
  let ?d = "\<lparr>doc_id = hex_fixed 8 (unat (time_low (uuid1 env (uuid_count w)))), content = chunk,
      metadata_storage_path = file_name\<rparr>"
  from Cons.IH [of "documents @ [?d]" ?w2]
  show ?case by (simp add: Let_def uuid_first_field)
qed

lemma numbered_length: "length (numbered_documents env file_name n chunks) = length chunks"
  by (induction chunks arbitrary: n) auto

lemma numbered_content: "map content (numbered_documents env file_name n chunks) = chunks"
  by (induction chunks arbitrary: n) auto

lemma numbered_path:
  "d \<in> set (numbered_documents env file_name n chunks) \<Longrightarrow> metadata_storage_path d = file_name"
  by (induction chunks arbitrary: n) auto

lemma numbered_ids:
  "map doc_id (numbered_documents env file_name n chunks) =
   map (\<lambda>k. hex_fixed 8 (unat (time_low (uuid1 env k)))) [n ..< n + length chunks]"
proof (induction chunks arbitrary: n)
  case Nil
  then show ?case by simp
next
  case (Cons chunk chunks)
  have "[n ..< n + length (chunk # chunks)] = n # [Suc n ..< Suc n + length chunks]"
    using upt_conv_Cons [of n "n + length (chunk # chunks)"] by simp
  with Cons.IH [of "Suc n"] show ?case by simp
qed

text \<open>
  Claim C6, as amended. \<^verbatim>\<open>__document_generator\<close> always returns, with one document per
  chunk, in order, each carrying its chunk as content and the given file name as
  \<open>metadata_storage_path\<close>. The id of a document is the first group of the printed
  identifier, the eight hexadecimal digits of its \<open>time_low\<close> field. So the ids are pairwise
  distinct exactly when the \<open>time_low\<close> fields of the identifiers drawn are; freshness of
  the whole identifiers does not give that.
\<close>

theorem document_generator_builds:
  "\<exists>docs w'. document_generator env chunks file_name w = Return docs w' \<and>
     length docs = length chunks \<and>
     map content docs = chunks \<and>
     (\<forall>d \<in> set docs. metadata_storage_path d = file_name) \<and>
     map doc_id docs =
       map (\<lambda>k. hex_fixed 8 (unat (time_low (uuid1 env k))))
         [uuid_count w ..< uuid_count w + length chunks] \<and>
     distinct (map doc_id docs) =
       distinct (map (\<lambda>k. time_low (uuid1 env k)) [uuid_count w ..< uuid_count w + length chunks])"
proof -
  let ?w0 = "w\<lparr>logger := logger w @ [Entry INFO ''Generating documents for the chunks'']\<rparr>"
  let ?docs = "numbered_documents env file_name (uuid_count w) chunks"
  let ?ks = "[uuid_count w ..< uuid_count w + length chunks]"
  from generate_numbered [of env chunks file_name "[]" ?w0]
  obtain w' where "generate env chunks file_name [] ?w0 = (?docs, w')" by auto
  then have run: "document_generator env chunks file_name w = Return ?docs w'"
    by (simp add: document_generator_def info_def)
  have ids: "map doc_id ?docs = map (\<lambda>k. hex_fixed 8 (unat (time_low (uuid1 env k)))) ?ks"
    by (rule numbered_ids)
  have "inj (\<lambda>a :: 32 word. hex_fixed 8 (unat a))"
    by (rule injI) (rule first_field_inj)
  then have "inj_on (\<lambda>a :: 32 word. hex_fixed 8 (unat a)) (set (map (\<lambda>k. time_low (uuid1 env k)) ?ks))"
    by (rule inj_on_subset) simp
  then have "distinct (map (\<lambda>a :: 32 word. hex_fixed 8 (unat a)) (map (\<lambda>k. time_low (uuid1 env k)) ?ks)) =
      distinct (map (\<lambda>k. time_low (uuid1 env k)) ?ks)"
    by (simp only: distinct_map simp_thms)
  then have dist: "distinct (map doc_id ?docs) = distinct (map (\<lambda>k. time_low (uuid1 env k)) ?ks)"
    by (simp add: ids comp_def)
  from run numbered_length [of env file_name "uuid_count w" chunks]
    numbered_content [of env file_name "uuid_count w" chunks]
    numbered_path [of _ env file_name "uuid_count w" chunks] ids dist
  show ?thesis by blast
qed


theorem document_generator_builds_witness:
  "document_generator demo_env [''one'', ''two''] ''a.pdf'' ledger_world =
     Return
       [\<lparr>doc_id = ''6ba7b810'', content = ''one'', metadata_storage_path = ''a.pdf''\<rparr>,
        \<lparr>doc_id = ''6ba7b811'', content = ''two'', metadata_storage_path = ''a.pdf''\<rparr>]
       (ledger_world\<lparr>logger :=
          [Entry INFO ''Generating documents for the chunks'',
           Entry INFO ''Generation of documents successfully completed.'',
           Entry INFO ''Generation of documents successfully completed.''],
          uuid_count := 2\<rparr>) \<and>
   (\<exists>docs w'. document_generator demo_env [''one'', ''two''] ''a.pdf'' ledger_world = Return docs w' \<and>
     length docs = length [''one'', ''two''] \<and>
     map content docs = [''one'', ''two''] \<and>
     (\<forall>d \<in> set docs. metadata_storage_path d = ''a.pdf'') \<and>
     map doc_id docs =
       map (\<lambda>k. hex_fixed 8 (unat (time_low (uuid1 demo_env k))))
         [uuid_count ledger_world ..< uuid_count ledger_world + length [''one'', ''two'']] \<and>
     distinct (map doc_id docs) =
       distinct (map (\<lambda>k. time_low (uuid1 demo_env k))
         [uuid_count ledger_world ..< uuid_count ledger_world + length [''one'', ''two'']]))"
proof
  show "document_generator demo_env [''one'', ''two''] ''a.pdf'' ledger_world =
     Return
       [\<lparr>doc_id = ''6ba7b810'', content = ''one'', metadata_storage_path = ''a.pdf''\<rparr>,
        \<lparr>doc_id = ''6ba7b811'', content = ''two'', metadata_storage_path = ''a.pdf''\<rparr>]
       (ledger_world\<lparr>logger :=
          [Entry INFO ''Generating documents for the chunks'',
           Entry INFO ''Generation of documents successfully completed.'',
           Entry INFO ''Generation of documents successfully completed.''],
          uuid_count := 2\<rparr>)"
    by (simp add: document_generator_def info_def Let_def demo_env_def ledger_world_def
        uuid_first_field demo_uuid_def hex_fixed_numeral hex_digit_def)
next
  show "\<exists>docs w'. document_generator demo_env [''one'', ''two''] ''a.pdf'' ledger_world = Return docs w' \<and>
     length docs = length [''one'', ''two''] \<and>
     map content docs = [''one'', ''two''] \<and>
     (\<forall>d \<in> set docs. metadata_storage_path d = ''a.pdf'') \<and>
     map doc_id docs =
       map (\<lambda>k. hex_fixed 8 (unat (time_low (uuid1 demo_env k))))
         [uuid_count ledger_world ..< uuid_count ledger_world + length [''one'', ''two'']] \<and>
     distinct (map doc_id docs) =
       distinct (map (\<lambda>k. time_low (uuid1 demo_env k))
         [uuid_count ledger_world ..< uuid_count ledger_world + length [''one'', ''two'']])"
    by (rule document_generator_builds)
qed

text \<open>
  Claim C6 as stated fails: two different fresh identifiers with the same \<open>time_low\<close> give
  two documents with the same id.
\<close>

theorem document_ids_collide:
  "uuid_str (uuid1 colliding_env 0) = ''6ba7b810-9dad-11d1-80b4-00c04fd430c8'' \<and>
   uuid_str (uuid1 colliding_env 1) = ''6ba7b810-9dae-11d1-80b4-00c04fd430c8'' \<and>
   document_generator colliding_env [''one'', ''two''] ''a.pdf'' ledger_world =
     Return
       [\<lparr>doc_id = ''6ba7b810'', content = ''one'', metadata_storage_path = ''a.pdf''\<rparr>,
        \<lparr>doc_id = ''6ba7b810'', content = ''two'', metadata_storage_path = ''a.pdf''\<rparr>]
       (ledger_world\<lparr>logger :=
          [Entry INFO ''Generating documents for the chunks'',
           Entry INFO ''Generation of documents successfully completed.'',
           Entry INFO ''Generation of documents successfully completed.''],
          uuid_count := 2\<rparr>)"
proof (intro conjI)
  show "uuid_str (uuid1 colliding_env 0) = ''6ba7b810-9dad-11d1-80b4-00c04fd430c8''"
    by (simp add: colliding_env_def demo_env_def uuid_str_def demo_uuid_def hex_fixed_numeral
        hex_digit_def)
  show "uuid_str (uuid1 colliding_env 1) = ''6ba7b810-9dae-11d1-80b4-00c04fd430c8''"
    by (simp add: colliding_env_def demo_env_def uuid_str_def demo_uuid_def hex_fixed_numeral
        hex_digit_def)
  show "document_generator colliding_env [''one'', ''two''] ''a.pdf'' ledger_world =
     Return
       [\<lparr>doc_id = ''6ba7b810'', content = ''one'', metadata_storage_path = ''a.pdf''\<rparr>,
        \<lparr>doc_id = ''6ba7b810'', content = ''two'', metadata_storage_path = ''a.pdf''\<rparr>]
       (ledger_world\<lparr>logger :=
          [Entry INFO ''Generating documents for the chunks'',
           Entry INFO ''Generation of documents successfully completed.'',
           Entry INFO ''Generation of documents successfully completed.''],
          uuid_count := 2\<rparr>)"
    by (simp add: document_generator_def info_def Let_def colliding_env_def demo_env_def
        ledger_world_def uuid_first_field demo_uuid_def hex_fixed_numeral hex_digit_def)
qed

subsection \<open>The constructor\<close>

lemma create_returns:
  "\<exists>w'. create_sqlite_database w = Return () w'"
  by (simp add: create_sqlite_database_def info_def warn_def Let_def)

lemma init_valid_index_name:
  assumes valid: "isinstance_str_int index_name_arg \<and> index_name_arg \<noteq> PyStr []"
    and e1: "map_of (environ s) ''AZURE_STORAGE_CONNECTION_STRING'' = Some conn"
    and e2: "map_of (environ s) ''AZURE_CONTAINER_NAME'' = Some cont"
    and e3: "map_of (environ s) ''AZURE_COGNITIVE_SEARCH_SERVICE_NAME'' = Some svc"
    and e4: "map_of (environ s) ''AZURE_COGNITIVE_SEARCH_KEY'' = Some key"
    and ok: "from_connection_string_raises s conn = None"
  shows "\<exists>obj w'. init s index_name_arg w = Return obj w' \<and> index_name obj = py_str index_name_arg"
proof -
  from create_returns obtain w0 where c: "create_sqlite_database w = Return () w0" by blast
  with assms show ?thesis
    by (simp add: init_def environ_get_def from_connection_string_def info_def Let_def)
qed

text \<open>
  The constructor on an \<^verbatim>\<open>index_name\<close> that fails the test, once the steps before the
  test have succeeded: the \<^verbatim>\<open>else\<close> branch logs the error and raises nothing (the next
  log line is written), and the read of the unassigned attribute raises.
\<close>

lemma init_invalid_index_name:
  assumes invalid: "\<not> (isinstance_str_int index_name_arg \<and> index_name_arg \<noteq> PyStr [])"
    and e1: "map_of (environ s) ''AZURE_STORAGE_CONNECTION_STRING'' = Some conn"
    and e2: "map_of (environ s) ''AZURE_CONTAINER_NAME'' = Some cont"
    and e3: "map_of (environ s) ''AZURE_COGNITIVE_SEARCH_SERVICE_NAME'' = Some svc"
    and e4: "map_of (environ s) ''AZURE_COGNITIVE_SEARCH_KEY'' = Some key"
    and ok: "from_connection_string_raises s conn = None"
  shows "\<exists>w0 w'. create_sqlite_database w = Return () w0 \<and>
           init s index_name_arg w = Raise (AttributeError ''index_name'') w' \<and>
           logger w' = logger w0 @
             [Entry INFO ''Creating a Blob Service Client with the provided connection string.'',
              Entry INFO ''Created Blob Service Client'',
              Entry ERROR ''Index name must be an str or int'',
              Entry INFO ''Creating a Search Client with the provided connection string.'']"
proof -
  from create_returns obtain w0 where c: "create_sqlite_database w = Return () w0" by blast
  with assms show ?thesis
    by (simp add: init_def environ_get_def from_connection_string_def info_def error_def Let_def)
qed

text \<open>
  Claim C10. The claim says that for an \<^verbatim>\<open>index_name\<close> that is the empty string the
  constructor logs an error but returns normally. The code does not: the
  \<^verbatim>\<open>ValueError\<close> of the \<^verbatim>\<open>else\<close> branch is built and never raised, so
  \<^verbatim>\<open>self.index_name\<close> stays unassigned, and the statement that builds the search
  client reads it and raises \<^verbatim>\<open>AttributeError\<close>. Below, the constructor on the empty
  string, with the four environment variables set and the ledger already in place: the
  error is logged, the next log line is written, and the call ends in the exception.
\<close>

theorem init_empty_index_name_raises:
  "init demo_startup (PyStr []) ledger_world =
     Raise (AttributeError ''index_name'')
       (ledger_world\<lparr>logger :=
          [Entry INFO ''Checking for the availablity of the database at database/file_check_in.db'',
           Entry WARNING (''Database '' @ [CHR 0x27] @ ''database/file_check_in.db'' @ [CHR 0x27] @
              '' already exists. Exiting the function.''),
           Entry INFO ''Creating a Blob Service Client with the provided connection string.'',
           Entry INFO ''Created Blob Service Client'',
           Entry ERROR ''Index name must be an str or int'',
           Entry INFO ''Creating a Search Client with the provided connection string.'']\<rparr>)"
  by (simp add: init_def create_sqlite_database_def db_path_def environ_get_def
      from_connection_string_def info_def warn_def error_def Let_def demo_startup_def
      ledger_world_def isinstance_str_int_def)

end
